theory Spec2Isabelle
  imports Main "HOL-Library.Sublist"
begin

section \<open>Python strings\<close>

text \<open>
  A Python \<open>str\<close> is modelled as a \<^typ>\<open>string\<close> whose characters are the code points
  below 256 (ASCII and Latin-1). On these, \<open>str.isspace\<close>, \<open>str.strip\<close> and the class
  \<open>\s\<close> of \<open>re\<close> take the same white space: TAB, LF, VT, FF, CR, the separators FS, GS,
  RS and US, the blank, NEL (U+0085) and the no-break space (U+00A0).
\<close>

definition isspace :: "char \<Rightarrow> bool" where
  "isspace c = (c \<in> set [CHR 0x09, CHR 0x0A, CHR 0x0B, CHR 0x0C, CHR 0x0D,
                           CHR 0x1C, CHR 0x1D, CHR 0x1E, CHR 0x1F, CHR 0x20,
                           CHR 0x85, CHR 0xA0])"

text \<open>The capital and the small letters of Latin-1 beyond ASCII, in the same order:
  U+00C0 to U+00DE without the multiplication sign, U+00E0 to U+00FE without the
  division sign.\<close>

definition latin1_capitals :: string where
  "latin1_capitals =
     [CHR 0xC0, CHR 0xC1, CHR 0xC2, CHR 0xC3, CHR 0xC4, CHR 0xC5, CHR 0xC6, CHR 0xC7,
      CHR 0xC8, CHR 0xC9, CHR 0xCA, CHR 0xCB, CHR 0xCC, CHR 0xCD, CHR 0xCE, CHR 0xCF,
      CHR 0xD0, CHR 0xD1, CHR 0xD2, CHR 0xD3, CHR 0xD4, CHR 0xD5, CHR 0xD6, CHR 0xD8,
      CHR 0xD9, CHR 0xDA, CHR 0xDB, CHR 0xDC, CHR 0xDD, CHR 0xDE]"

definition latin1_smalls :: string where
  "latin1_smalls =
     [CHR 0xE0, CHR 0xE1, CHR 0xE2, CHR 0xE3, CHR 0xE4, CHR 0xE5, CHR 0xE6, CHR 0xE7,
      CHR 0xE8, CHR 0xE9, CHR 0xEA, CHR 0xEB, CHR 0xEC, CHR 0xED, CHR 0xEE, CHR 0xEF,
      CHR 0xF0, CHR 0xF1, CHR 0xF2, CHR 0xF3, CHR 0xF4, CHR 0xF5, CHR 0xF6, CHR 0xF8,
      CHR 0xF9, CHR 0xFA, CHR 0xFB, CHR 0xFC, CHR 0xFD, CHR 0xFE]"

text \<open>\<open>str.lower\<close>: each capital letter to its small letter, every other character to
  itself.\<close>

definition lower_char :: "char \<Rightarrow> char" where
  "lower_char c =
     (case map_of (zip (''ABCDEFGHIJKLMNOPQRSTUVWXYZ'' @ latin1_capitals)
                       (''abcdefghijklmnopqrstuvwxyz'' @ latin1_smalls)) c of
        Some d \<Rightarrow> d
      | None \<Rightarrow> c)"

text \<open>
  \<open>str.upper\<close>: each small letter to its capital letter and the sharp s (U+00DF) to the
  two letters \<open>SS\<close>. The upper case of the micro sign (U+00B5) and of the y with
  diaeresis (U+00FF) lies above code point 255, so the upper case of a text with one of
  them is no text of the model; \<open>upper\<close> is \<open>str.upper\<close> on the texts without them
  (\<open>upper_in_range\<close>).
\<close>

definition upper_char :: "char \<Rightarrow> string" where
  "upper_char c =
     (if c = CHR 0xDF then ''SS''
      else (case map_of (zip (''abcdefghijklmnopqrstuvwxyz'' @ latin1_smalls)
                             (''ABCDEFGHIJKLMNOPQRSTUVWXYZ'' @ latin1_capitals)) c of
              Some d \<Rightarrow> [d]
            | None \<Rightarrow> [c]))"


definition lower :: "string \<Rightarrow> string" where
  "lower s = map lower_char s"

definition upper :: "string \<Rightarrow> string" where
  "upper s = concat (map upper_char s)"

definition strip :: "string \<Rightarrow> string" where
  "strip s = rev (dropWhile isspace (rev (dropWhile isspace s)))"

text \<open>\<open>s.startswith(p)\<close>, \<open>s.endswith(p)\<close> and \<open>p in s\<close>.\<close>

fun startswith :: "string \<Rightarrow> string \<Rightarrow> bool" where
  "startswith s [] = True"
| "startswith [] (p # ps) = False"
| "startswith (c # cs) (p # ps) = (c = p \<and> startswith cs ps)"

definition endswith :: "string \<Rightarrow> string \<Rightarrow> bool" where
  "endswith s p = startswith (rev s) (rev p)"

fun contains :: "string \<Rightarrow> string \<Rightarrow> bool" where
  "contains [] p = (p = [])"
| "contains (c # cs) p = (startswith (c # cs) p \<or> contains cs p)"

text \<open>\<open>re.sub(r"\s+", " ", s)\<close>: every maximal run of white space becomes one blank.\<close>

function collapse_ws :: "string \<Rightarrow> string" where
  "collapse_ws [] = []"
| "collapse_ws (c # cs) =
     (if isspace c then CHR '' '' # collapse_ws (dropWhile isspace cs)
      else c # collapse_ws cs)"
  by pat_completeness auto
termination
  by (relation "measure length") (auto simp: length_dropWhile_le less_Suc_eq_le)

text \<open>\<open>s.replace(a, b)\<close> for one-character \<open>a\<close> and \<open>b\<close>, and \<open>s.replace(a, "")\<close>.\<close>

definition replace_char :: "char \<Rightarrow> char \<Rightarrow> string \<Rightarrow> string" where
  "replace_char a b s = map (\<lambda>c. if c = a then b else c) s"

definition remove_char :: "char \<Rightarrow> string \<Rightarrow> string" where
  "remove_char a s = filter (\<lambda>c. c \<noteq> a) s"

text \<open>\<open>s.split(sep)\<close> for a one-character separator: one more piece than separators.\<close>

fun split_char :: "char \<Rightarrow> string \<Rightarrow> string list" where
  "split_char sep [] = [[]]"
| "split_char sep (c # cs) =
     (if c = sep then [] # split_char sep cs
      else (case split_char sep cs of
              [] \<Rightarrow> [[c]]
            | w # ws \<Rightarrow> (c # w) # ws))"

text \<open>\<open>sep.join(parts)\<close>.\<close>

fun join :: "string \<Rightarrow> string list \<Rightarrow> string" where
  "join sep [] = []"
| "join sep [p] = p"
| "join sep (p # q # ps) = p @ sep @ join sep (q # ps)"

text \<open>\<open>v or ""\<close> for an optional string.\<close>

definition or_empty :: "string option \<Rightarrow> string" where
  "or_empty v = (case v of None \<Rightarrow> [] | Some s \<Rightarrow> s)"

section \<open>Status normalizer\<close>

text \<open>
  \<open>SegurosBolivarSession._normalize_estado\<close>. The argument is optional because the
  source reads \<open>raw or ""\<close>. The tests are made in the order of the source.
\<close>

definition normalize_estado :: "string option \<Rightarrow> string" where
  "normalize_estado raw =
     (let text = strip (or_empty raw) in
      if text = [] then ''NO ENCONTRADO''
      else
        let lower = lower text in
        if lower = ''nuevo'' then ''SIN DESISTIR''
        else if contains lower ''desist'' then ''DESISTIDO''
        else if contains lower ''report'' then ''REPORTADO''
        else if contains lower ''sin desist'' \<or> contains lower ''no ha pagado''
                \<or> contains lower ''sin pagar'' then ''SIN DESISTIR''
        else upper (strip (collapse_ws text)))"

section \<open>Request normalisation of the batch endpoint\<close>

text \<open>
  \<open>_normalize_cookie_header\<close> of \<open>views.py\<close>. \<open>value.split(":", 1)[1]\<close> is what follows
  the first colon; it is only evaluated when the value starts with \<open>cookie:\<close>.
\<close>

definition after_first_colon :: "string \<Rightarrow> string" where
  "after_first_colon s = drop 1 (dropWhile (\<lambda>c. c \<noteq> CHR '':'') s)"

definition normalize_cookie_header :: "string option \<Rightarrow> string" where
  "normalize_cookie_header raw =
     (let value = strip (or_empty raw) in
      if value = [] then []
      else
        let value = (if startswith (lower value) ''cookie:''
                     then strip (after_first_colon value) else value);
            value = remove_char (CHR 0x0D) value
        in join ''; ''
             (map strip
                (filter (\<lambda>p. strip p \<noteq> [])
                   (split_char (CHR '';'') (replace_char (CHR 0x0A) (CHR '';'') value)))))"

text \<open>
  The value of the \<open>radicados\<close> key of the request body. A list holds the \<open>str()\<close>
  rendering of each of its elements (the element itself when it is a string), and any
  other JSON value is held by its \<open>str()\<close> rendering.
\<close>

datatype radicados_value =
    RNone
  | RStr string
  | RList "string list"
  | ROther string

text \<open>The candidates of a text area: the text cut at CR, LF, comma and semicolon.\<close>

definition candidates :: "string \<Rightarrow> string list" where
  "candidates v =
     split_char (CHR 0x0A)
       (replace_char (CHR '';'') (CHR 0x0A)
          (replace_char (CHR '','') (CHR 0x0A)
             (replace_char (CHR 0x0D) (CHR 0x0A) v)))"

text \<open>The comprehension \<open>[c.strip() for c in cs if c.strip()]\<close>.\<close>

definition stripped_nonempty :: "string list \<Rightarrow> string list" where
  "stripped_nonempty cs = map strip (filter (\<lambda>c. strip c \<noteq> []) cs)"

text \<open>The loop that removes duplicates: \<open>seen\<close> is the set, \<open>unique\<close> the list built.\<close>

fun dedup_loop :: "string list \<Rightarrow> string set \<Rightarrow> string list \<Rightarrow> string list" where
  "dedup_loop [] seen unique = unique"
| "dedup_loop (r # rs) seen unique =
     (if r \<notin> seen then dedup_loop rs (insert r seen) (unique @ [r])
      else dedup_loop rs seen unique)"

definition normalize_radicados :: "radicados_value \<Rightarrow> string list" where
  "normalize_radicados v =
     (case v of
        RNone \<Rightarrow> []
      | RStr s \<Rightarrow> dedup_loop (stripped_nonempty (candidates s)) {} []
      | RList vs \<Rightarrow> dedup_loop (stripped_nonempty vs) {} []
      | ROther s \<Rightarrow> dedup_loop (if strip s \<noteq> [] then [strip s] else []) {} [])"

section \<open>Parsed markup\<close>

text \<open>
  The tree that \<open>BeautifulSoup(text, "html.parser")\<close> builds. A \<open>Tag\<close> has its name, its
  attribute dictionary and its contents; \<open>Text\<close> is a \<open>NavigableString\<close> (or a CDATA
  section) and \<open>Special\<close> a comment, declaration, doctype or processing instruction,
  which \<open>get_text\<close> leaves out. A document is the list of the top-level nodes.
\<close>

datatype node =
    Tag string "(string \<times> string) list" "node list"
  | Text string
  | Special string

fun descendants :: "node \<Rightarrow> node list" where
  "descendants (Tag n a cs) = concat (map (\<lambda>c. c # descendants c) cs)"
| "descendants (Text s) = []"
| "descendants (Special s) = []"

definition doc_order :: "node list \<Rightarrow> node list" where
  "doc_order doc = concat (map (\<lambda>c. c # descendants c) doc)"

fun tag_name :: "node \<Rightarrow> string option" where
  "tag_name (Tag n a cs) = Some n"
| "tag_name (Text s) = None"
| "tag_name (Special s) = None"

text \<open>\<open>tag.get(key)\<close>.\<close>

fun get_attr :: "node \<Rightarrow> string \<Rightarrow> string option" where
  "get_attr (Tag n a cs) key = map_of a key"
| "get_attr (Text s) key = None"
| "get_attr (Special s) key = None"

definition named :: "string list \<Rightarrow> node \<Rightarrow> bool" where
  "named names t = (case tag_name t of None \<Rightarrow> False | Some n \<Rightarrow> n \<in> set names)"

text \<open>\<open>tag.find_all(names)\<close> and \<open>tag.find(pred)\<close>, in document order.\<close>

definition find_all :: "string list \<Rightarrow> node \<Rightarrow> node list" where
  "find_all names t = filter (named names) (descendants t)"

definition find_first :: "(node \<Rightarrow> bool) \<Rightarrow> node \<Rightarrow> node option" where
  "find_first P t = find P (descendants t)"

text \<open>\<open>tag.get_text(" ", strip=True)\<close>: the stripped, non-empty strings, joined by a blank.\<close>

fun strings_of :: "node \<Rightarrow> string list" where
  "strings_of (Tag n a cs) = concat (map strings_of cs)"
| "strings_of (Text s) = [s]"
| "strings_of (Special s) = []"

definition get_text :: "node \<Rightarrow> string" where
  "get_text t = join '' '' (stripped_nonempty (strings_of t))"

text \<open>The name of the state-token field.\<close>

definition VIEW_STATE :: string where
  "VIEW_STATE = ''javax.faces.ViewState''"

text \<open>\<open>soup.find("input", {"name": "javax.faces.ViewState"})\<close> on a list of nodes.\<close>

definition is_view_state_input :: "node \<Rightarrow> bool" where
  "is_view_state_input t = (named [''input''] t \<and> get_attr t ''name'' = Some VIEW_STATE)"

section \<open>Form resolver\<close>

text \<open>The predicate given to \<open>form.find\<close>: an input or textarea whose name or id ends,
  in lower case, with \<open>busqueda\<close>.\<close>

definition is_busqueda_field :: "node \<Rightarrow> bool" where
  "is_busqueda_field t =
     (named [''input'', ''textarea''] t \<and>
      (endswith (lower (or_empty (get_attr t ''name''))) ''busqueda'' \<or>
       endswith (lower (or_empty (get_attr t ''id''))) ''busqueda''))"

definition has_busqueda :: "node \<Rightarrow> bool" where
  "has_busqueda form = (find_first is_busqueda_field form \<noteq> None)"

definition is_form_index :: "node \<Rightarrow> bool" where
  "is_form_index form =
     (strip (or_empty (get_attr form ''id'')) = ''FormIndex'' \<or>
      strip (or_empty (get_attr form ''name'')) = ''FormIndex'')"

definition posts_to_index :: "node \<Rightarrow> bool" where
  "posts_to_index form =
     (let action = lower (or_empty (get_attr form ''action'')) in
      endswith action ''/pages/index.xhtml'' \<or> endswith action ''index.xhtml'')"

definition has_view_state :: "node \<Rightarrow> bool" where
  "has_view_state form = (find_first is_view_state_input form \<noteq> None)"

text \<open>The four loops of \<open>_find_search_form\<close>, each over the list it iterates.\<close>

fun busqueda_forms :: "node list \<Rightarrow> node list" where
  "busqueda_forms [] = []"
| "busqueda_forms (form # forms) =
     (if has_busqueda form then form # busqueda_forms forms else busqueda_forms forms)"

fun first_form_index :: "node list \<Rightarrow> node option" where
  "first_form_index [] = None"
| "first_form_index (form # forms) =
     (if is_form_index form then Some form else first_form_index forms)"

fun first_posting_to_index :: "node list \<Rightarrow> node option" where
  "first_posting_to_index [] = None"
| "first_posting_to_index (form # forms) =
     (if posts_to_index form then Some form else first_posting_to_index forms)"

fun first_with_view_state :: "node list \<Rightarrow> node option" where
  "first_with_view_state [] = None"
| "first_with_view_state (form # forms) =
     (if has_view_state form then Some form else first_with_view_state forms)"

text \<open>\<open>_find_search_form\<close> on the parsed document: \<open>None\<close> when it has no form.\<close>

definition all_forms :: "node list \<Rightarrow> node list" where
  "all_forms doc = filter (named [''form'']) (doc_order doc)"

definition find_search_form :: "node list \<Rightarrow> node option" where
  "find_search_form doc =
     (case all_forms doc of
        [] \<Rightarrow> None
      | form0 # rest \<Rightarrow>
          (case busqueda_forms (form0 # rest) of
             b0 # bs \<Rightarrow>
               (case first_form_index (b0 # bs) of
                  Some form \<Rightarrow> Some form
                | None \<Rightarrow>
                    (case first_posting_to_index (b0 # bs) of
                       Some form \<Rightarrow> Some form
                     | None \<Rightarrow> Some b0))
           | [] \<Rightarrow>
               (case first_with_view_state (form0 # rest) of
                  Some form \<Rightarrow> Some form
                | None \<Rightarrow> Some form0)))"

text \<open>
  The order of the resolver stated on its own, with tests spelt out apart from the
  functions above: a search field is an input or textarea whose name or id, in lower
  case, has the suffix \<open>busqueda\<close>; the canonical form has the id or name \<open>FormIndex\<close>
  once surrounding white space is removed; a form posts to the landing page when its
  action, in lower case, has the suffix \<open>index.xhtml\<close>; a state-token input is an input
  named \<open>javax.faces.ViewState\<close>.
\<close>

definition spec_search_field :: "node \<Rightarrow> bool" where
  "spec_search_field t =
     (case t of
        Tag n a cs \<Rightarrow>
          (n = ''input'' \<or> n = ''textarea'') \<and>
          (suffix ''busqueda'' (lower (case map_of a ''name'' of None \<Rightarrow> [] | Some v \<Rightarrow> v)) \<or>
           suffix ''busqueda'' (lower (case map_of a ''id'' of None \<Rightarrow> [] | Some v \<Rightarrow> v)))
      | Text x \<Rightarrow> False
      | Special x \<Rightarrow> False)"

definition spec_state_token_input :: "node \<Rightarrow> bool" where
  "spec_state_token_input t =
     (case t of
        Tag n a cs \<Rightarrow> n = ''input'' \<and> map_of a ''name'' = Some ''javax.faces.ViewState''
      | Text x \<Rightarrow> False
      | Special x \<Rightarrow> False)"

definition spec_has_search_field :: "node \<Rightarrow> bool" where
  "spec_has_search_field form = list_ex spec_search_field (descendants form)"

definition spec_has_state_token :: "node \<Rightarrow> bool" where
  "spec_has_state_token form = list_ex spec_state_token_input (descendants form)"

definition spec_canonical :: "node \<Rightarrow> bool" where
  "spec_canonical form =
     (case form of
        Tag n a cs \<Rightarrow>
          strip (case map_of a ''id'' of None \<Rightarrow> [] | Some v \<Rightarrow> v) = ''FormIndex'' \<or>
          strip (case map_of a ''name'' of None \<Rightarrow> [] | Some v \<Rightarrow> v) = ''FormIndex''
      | Text x \<Rightarrow> False
      | Special x \<Rightarrow> False)"

definition spec_posts_to_landing :: "node \<Rightarrow> bool" where
  "spec_posts_to_landing form =
     (case form of
        Tag n a cs \<Rightarrow>
          suffix ''index.xhtml'' (lower (case map_of a ''action'' of None \<Rightarrow> [] | Some v \<Rightarrow> v))
      | Text x \<Rightarrow> False
      | Special x \<Rightarrow> False)"

text \<open>The first element of a list with a property, for a list that has one.\<close>

definition first_such :: "('a \<Rightarrow> bool) \<Rightarrow> 'a list \<Rightarrow> 'a" where
  "first_such P xs = hd (filter P xs)"

definition resolve_form_spec :: "node list \<Rightarrow> node" where
  "resolve_form_spec forms =
     (let with_search = filter spec_has_search_field forms in
      if list_ex spec_has_search_field forms then
        (if list_ex spec_canonical with_search then first_such spec_canonical with_search
         else if list_ex spec_posts_to_landing with_search
           then first_such spec_posts_to_landing with_search
         else hd with_search)
      else if list_ex spec_has_state_token forms then first_such spec_has_state_token forms
      else hd forms)"

text \<open>
  The same order with the tests as the claim words them: the name or id ends with
  \<open>busqueda\<close>, the id or name is exactly \<open>FormIndex\<close>, the action ends with
  \<open>index.xhtml\<close>; the values are taken as they stand in the markup.
\<close>

definition claim_search_field :: "node \<Rightarrow> bool" where
  "claim_search_field t =
     (case t of
        Tag n a cs \<Rightarrow>
          (n = ''input'' \<or> n = ''textarea'') \<and>
          (suffix ''busqueda'' (case map_of a ''name'' of None \<Rightarrow> [] | Some v \<Rightarrow> v) \<or>
           suffix ''busqueda'' (case map_of a ''id'' of None \<Rightarrow> [] | Some v \<Rightarrow> v))
      | Text x \<Rightarrow> False
      | Special x \<Rightarrow> False)"

definition claim_has_search_field :: "node \<Rightarrow> bool" where
  "claim_has_search_field form = list_ex claim_search_field (descendants form)"

definition claim_canonical :: "node \<Rightarrow> bool" where
  "claim_canonical form =
     (case form of
        Tag n a cs \<Rightarrow> map_of a ''id'' = Some ''FormIndex'' \<or> map_of a ''name'' = Some ''FormIndex''
      | Text x \<Rightarrow> False
      | Special x \<Rightarrow> False)"

definition claim_posts_to_landing :: "node \<Rightarrow> bool" where
  "claim_posts_to_landing form =
     (case form of
        Tag n a cs \<Rightarrow> suffix ''index.xhtml'' (case map_of a ''action'' of None \<Rightarrow> [] | Some v \<Rightarrow> v)
      | Text x \<Rightarrow> False
      | Special x \<Rightarrow> False)"

definition resolve_form_claim :: "node list \<Rightarrow> node" where
  "resolve_form_claim forms =
     (let with_search = filter claim_has_search_field forms in
      if list_ex claim_has_search_field forms then
        (if list_ex claim_canonical with_search then first_such claim_canonical with_search
         else if list_ex claim_posts_to_landing with_search
           then first_such claim_posts_to_landing with_search
         else hd with_search)
      else if list_ex spec_has_state_token forms then first_such spec_has_state_token forms
      else hd forms)"

section \<open>The query payload\<close>

text \<open>
  A Python \<open>dict\<close> with string keys, as the list of its items in insertion order.
  \<open>d[k] = v\<close> replaces the value of a key already present and appends a new key.
\<close>

fun dict_set :: "string \<Rightarrow> string \<Rightarrow> (string \<times> string) list \<Rightarrow> (string \<times> string) list" where
  "dict_set k v [] = [(k, v)]"
| "dict_set k v ((k', v') # d) = (if k' = k then (k, v) # d else (k', v') # dict_set k v d)"

text \<open>The first loop of the payload: the hidden inputs of the form are replayed, the
  state-token input is skipped.\<close>

fun hidden_fields :: "node list \<Rightarrow> (string \<times> string) list \<Rightarrow> (string \<times> string) list" where
  "hidden_fields [] payload = payload"
| "hidden_fields (inp # inps) payload =
     (let name = or_empty (get_attr inp ''name'') in
      if name = [] then hidden_fields inps payload
      else
        let itype = lower (or_empty (get_attr inp ''type''));
            val = or_empty (get_attr inp ''value'')
        in if name = VIEW_STATE then hidden_fields inps payload
           else if itype = ''hidden'' then hidden_fields inps (dict_set name val payload)
           else hidden_fields inps payload)"

text \<open>The second loop: the name of the search field, \<open>name or _id\<close> of the first input
  or textarea with \<open>busqueda\<close> in its name or id.\<close>

fun find_busqueda_name :: "node list \<Rightarrow> string option" where
  "find_busqueda_name [] = None"
| "find_busqueda_name (inp # inps) =
     (let name = get_attr inp ''name'';
          ident = get_attr inp ''id'';
          haystack = lower (or_empty name @ '' '' @ or_empty ident)
      in if contains haystack ''busqueda''
         then (if or_empty name \<noteq> [] then name else ident)
         else find_busqueda_name inps)"

text \<open>The third loop: the submit candidates, each with its name and its text.\<close>

fun submit_candidates :: "node list \<Rightarrow> (string \<times> string) list" where
  "submit_candidates [] = []"
| "submit_candidates (btn # btns) =
     (let btype = lower (or_empty (get_attr btn ''type'')) in
      if tag_name btn = Some ''input'' \<and> btype \<noteq> [] \<and> btype \<notin> set [''submit'', ''image'']
      then submit_candidates btns
      else
        let name = (if or_empty (get_attr btn ''name'') \<noteq> [] then or_empty (get_attr btn ''name'')
                    else or_empty (get_attr btn ''id''))
        in if name = [] then submit_candidates btns
           else
             let text_value = (if or_empty (get_attr btn ''value'') \<noteq> []
                               then or_empty (get_attr btn ''value'') else get_text btn)
             in (name, text_value) # submit_candidates btns)"

definition has_keyword :: "string \<Rightarrow> bool" where
  "has_keyword hay =
     list_ex (contains hay) [''buscar'', ''busca'', ''consulta'', ''consult'', ''search'']"

fun first_keyword_candidate :: "(string \<times> string) list \<Rightarrow> string option" where
  "first_keyword_candidate [] = None"
| "first_keyword_candidate ((name, text_value) # cands) =
     (if has_keyword (lower (name @ '' '' @ text_value)) then Some name
      else first_keyword_candidate cands)"

text \<open>
  \<open>re.fullmatch(r"j_idt\d+", name)\<close> and \<open>re.search(r"\bj_idt\d+\b", name)\<close>. After
  \<open>j_idt\<close> the digits are taken as far as they go: a boundary after fewer digits would
  stand between two digits. The flag of the search says whether the character before
  the position is a word character.
\<close>

definition is_digit :: "char \<Rightarrow> bool" where
  "is_digit c = (c \<in> set ''0123456789'')"

text \<open>The class \<open>\w\<close> on the code points below 256: the ASCII letters, digits and the
  underscore, the letters of Latin-1 and its superscript digits and fractions.\<close>

definition is_word :: "char \<Rightarrow> bool" where
  "is_word c =
     (c \<in> set (''abcdefghijklmnopqrstuvwxyzABCDEFGHIJKLMNOPQRSTUVWXYZ0123456789_'' @
               [CHR 0xAA, CHR 0xB2, CHR 0xB3, CHR 0xB5, CHR 0xB9, CHR 0xBA,
                CHR 0xBC, CHR 0xBD, CHR 0xBE, CHR 0xDF, CHR 0xFF] @
               latin1_capitals @ latin1_smalls))"

definition fullmatch_j_idt :: "string \<Rightarrow> bool" where
  "fullmatch_j_idt name =
     (startswith name ''j_idt'' \<and> drop 5 name \<noteq> [] \<and> list_all is_digit (drop 5 name))"

definition j_idt_here :: "string \<Rightarrow> bool" where
  "j_idt_here s =
     (startswith s ''j_idt'' \<and> takeWhile is_digit (drop 5 s) \<noteq> [] \<and>
      (case dropWhile is_digit (drop 5 s) of [] \<Rightarrow> True | c # cs \<Rightarrow> \<not> is_word c))"

fun search_j_idt_from :: "bool \<Rightarrow> string \<Rightarrow> bool" where
  "search_j_idt_from after_word [] = False"
| "search_j_idt_from after_word (c # cs) =
     ((\<not> after_word \<and> j_idt_here (c # cs)) \<or> search_j_idt_from (is_word c) cs)"

definition search_j_idt :: "string \<Rightarrow> bool" where
  "search_j_idt name = search_j_idt_from False name"

fun first_j_idt_candidate :: "(string \<times> string) list \<Rightarrow> string option" where
  "first_j_idt_candidate [] = None"
| "first_j_idt_candidate ((name, text_value) # cands) =
     (if fullmatch_j_idt name \<or> search_j_idt name then Some name
      else first_j_idt_candidate cands)"

text \<open>The submit control: a keyword candidate, else a \<open>j_idt\<close> candidate, else the only
  candidate. \<open>if not submit_name\<close> is true of \<open>None\<close> and of the empty name.\<close>

definition choose_submit :: "(string \<times> string) list \<Rightarrow> string option" where
  "choose_submit cands =
     (let submit_name = first_keyword_candidate cands;
          submit_name = (if or_empty submit_name = [] then first_j_idt_candidate cands
                         else submit_name)
      in if or_empty submit_name = [] \<and> length cands = 1 then Some (fst (hd cands))
         else submit_name)"

definition submit_name_of :: "node \<Rightarrow> string option" where
  "submit_name_of form = choose_submit (submit_candidates (find_all [''button'', ''input''] form))"

definition busqueda_name_of :: "node \<Rightarrow> string" where
  "busqueda_name_of form =
     (let busqueda_name = find_busqueda_name (find_all [''input'', ''textarea''] form)
      in if or_empty busqueda_name = [] then ''busqueda'' else or_empty busqueda_name)"

text \<open>The payload of lines 429 to 492 of \<open>get_info_for_radicado\<close>, for the resolved form,
  the trimmed identifier and the tracked state token.\<close>

definition build_payload :: "node \<Rightarrow> string \<Rightarrow> string \<Rightarrow> (string \<times> string) list" where
  "build_payload form solicitud view_state =
     (let payload = hidden_fields (find_all [''input''] form) [];
          payload = dict_set (busqueda_name_of form) solicitud payload;
          payload = dict_set VIEW_STATE view_state payload
      in if or_empty (submit_name_of form) \<noteq> []
         then dict_set (or_empty (submit_name_of form)) (or_empty (submit_name_of form)) payload
         else payload)"

section \<open>Parsed XML\<close>

text \<open>
  An \<open>xml.etree.ElementTree\<close> element: tag, attributes, text, children, tail.
  \<open>xml_iter\<close> is \<open>Element.iter()\<close> and \<open>itertext\<close> is \<open>Element.itertext()\<close>.
\<close>

datatype xml = Elem string "(string \<times> string) list" "string option" "xml list" "string option"

fun xml_tag :: "xml \<Rightarrow> string" where
  "xml_tag (Elem t a tx cs tlx) = t"

fun xml_attrib :: "xml \<Rightarrow> (string \<times> string) list" where
  "xml_attrib (Elem t a tx cs tlx) = a"

fun xml_tail :: "xml \<Rightarrow> string option" where
  "xml_tail (Elem t a tx cs tlx) = tlx"

fun xml_iter :: "xml \<Rightarrow> xml list" where
  "xml_iter (Elem t a tx cs tlx) = Elem t a tx cs tlx # concat (map xml_iter cs)"

fun itertext :: "xml \<Rightarrow> string list" where
  "itertext (Elem t a tx cs tlx) =
     (if or_empty tx \<noteq> [] then [or_empty tx] else []) @
     concat (map (\<lambda>e. itertext e @
                        (if or_empty (xml_tail e) \<noteq> [] then [or_empty (xml_tail e)] else []))
               cs)"

definition is_update :: "xml \<Rightarrow> bool" where
  "is_update elem = endswith (lower (xml_tag elem)) ''update''"

definition update_text :: "xml \<Rightarrow> string" where
  "update_text elem = strip (concat (itertext elem))"

section \<open>Exceptions, requests and the outside world\<close>

text \<open>
  The exceptions below \<open>Exception\<close> that the code raises or catches, each with its message;
  \<open>OtherException\<close> is any other of them, raised by a library or by the network.
\<close>

datatype exn =
    ValueError string
  | NotImplementedError string
  | HTTPError string
  | PlainException string
  | OtherException string

fun str_exc :: "exn \<Rightarrow> string" where
  "str_exc (ValueError m) = m"
| "str_exc (NotImplementedError m) = m"
| "str_exc (HTTPError m) = m"
| "str_exc (PlainException m) = m"
| "str_exc (OtherException m) = m"

record request =
  rmethod :: string
  rurl :: string
  rparams :: "(string \<times> string) list"
  rdata :: "(string \<times> string) list"
  rheaders :: "(string \<times> string) list"
  allow_redirects :: bool
  timeout :: "nat option"

record response =
  status_code :: nat
  headers :: "(string \<times> string) list"
  body_text :: string

text \<open>
  What the code does not own: the two parsers, \<open>html.unescape\<close>, \<open>urljoin\<close>,
  \<open>SimpleCookie.load\<close>, the network (its answer depends on the cookies of the session and
  on the requests sent before), the message of \<open>raise_for_status\<close>, the clock and the
  three environment variables. \<open>xml_fromstring\<close> is \<open>None\<close> when the parse raises.
  \<open>html_parser\<close> is \<open>BeautifulSoup(text, "html.parser")\<close>: the parsed document, or the
  exception with which the parser rejects the markup (\<open>ParserRejectedMarkup\<close>, as for a
  text with an unfinished marked section such as \<open><![ x ]>\<close>).
\<close>

record world =
  html_parser :: "string \<Rightarrow> exn + node list"
  xml_fromstring :: "string \<Rightarrow> xml option"
  html_unescape :: "string \<Rightarrow> string"
  urljoin :: "string \<Rightarrow> string \<Rightarrow> exn + string"
  cookie_load :: "string \<Rightarrow> exn + (string \<times> string) list"
  http_send :: "(string \<times> string) list \<Rightarrow> request list \<Rightarrow> request \<Rightarrow> exn + response"
  http_error_message :: "response \<Rightarrow> string"
  clock :: "nat \<Rightarrow> string"
  LIBERTADOR_USER :: "string option"
  LIBERTADOR_PASS :: "string option"
  LIBERTADOR_POLIZA :: "string option"

section \<open>The session\<close>

text \<open>
  The fields of \<open>SegurosBolivarSession\<close> that its methods read, the cookie jar of its
  \<open>requests.Session\<close>, and \<open>sent\<close>, the requests sent so far, oldest first.
\<close>

record session =
  cookie_header :: string
  use_server_auth :: bool
  user_id :: "string option"
  password :: "string option"
  poliza :: "string option"
  view_state_value :: "string option"
  is_authenticated :: bool
  cookies :: "(string \<times> string) list"
  sent :: "request list"

definition index_url :: string where
  "index_url = ''https://www.segurosbolivar.com/indemnizaciones-web/pages/index.xhtml''"

text \<open>\<open>re.split(r"[\n;]+", value)\<close>.\<close>

definition is_cookie_sep :: "char \<Rightarrow> bool" where
  "is_cookie_sep c = (c = CHR 0x0A \<or> c = CHR '';'')"

function re_split_seps :: "string \<Rightarrow> string list" where
  "re_split_seps [] = [[]]"
| "re_split_seps (c # cs) =
     (if is_cookie_sep c then [] # re_split_seps (dropWhile is_cookie_sep cs)
      else (case re_split_seps cs of
              [] \<Rightarrow> [[c]]
            | w # ws \<Rightarrow> (c # w) # ws))"
  by pat_completeness auto
termination
  by (relation "measure length") (auto simp: length_dropWhile_le less_Suc_eq_le)

text \<open>\<open>_apply_cookie_header\<close>: the cookies it puts into the jar, or the exception of
  \<open>SimpleCookie.load\<close>.\<close>

definition apply_cookie_header ::
  "world \<Rightarrow> string \<Rightarrow> (string \<times> string) list \<Rightarrow> exn + (string \<times> string) list" where
  "apply_cookie_header W header jar =
     (let value = strip header in
      if value = [] then Inr jar
      else
        let value = (if startswith (lower value) ''cookie:''
                     then strip (after_first_colon value) else value);
            value = remove_char (CHR 0x0D) value;
            value = join ''; '' (stripped_nonempty (re_split_seps value))
        in case cookie_load W value of
             Inl e \<Rightarrow> Inl e
           | Inr parsed \<Rightarrow> Inr (fold (\<lambda>(key, v) j. dict_set key v j) parsed jar))"

text \<open>The constructor.\<close>

definition new_session :: "world \<Rightarrow> string option \<Rightarrow> bool \<Rightarrow> exn + session" where
  "new_session W header server_auth =
     (let h = strip (or_empty header) in
      case (if h \<noteq> [] then apply_cookie_header W h [] else Inr []) of
        Inl e \<Rightarrow> Inl e
      | Inr jar \<Rightarrow>
          Inr \<lparr> cookie_header = h, use_server_auth = server_auth,
                user_id = LIBERTADOR_USER W, password = LIBERTADOR_PASS W,
                poliza = LIBERTADOR_POLIZA W, view_state_value = None,
                is_authenticated = False, cookies = jar, sent = [] \<rparr>)"

text \<open>One request of \<open>self.session\<close>: it is recorded, whatever its outcome.\<close>

definition send :: "world \<Rightarrow> session \<Rightarrow> request \<Rightarrow> (exn + response) \<times> session" where
  "send W s r = (http_send W (cookies s) (sent s) r, s\<lparr>sent := sent s @ [r]\<rparr>)"

definition http_get :: "string \<Rightarrow> bool \<Rightarrow> nat option \<Rightarrow> request" where
  "http_get u redirects t =
     \<lparr> rmethod = ''GET'', rurl = u, rparams = [], rdata = [], rheaders = [],
       allow_redirects = redirects, timeout = t \<rparr>"

definition http_post ::
  "string \<Rightarrow> (string \<times> string) list \<Rightarrow> (string \<times> string) list \<Rightarrow> (string \<times> string) list
     \<Rightarrow> nat option \<Rightarrow> request" where
  "http_post u ps d hs t =
     \<lparr> rmethod = ''POST'', rurl = u, rparams = ps, rdata = d, rheaders = hs,
       allow_redirects = True, timeout = t \<rparr>"

text \<open>\<open>resp.raise_for_status()\<close> and \<open>resp.headers.get(name)\<close> (names without case).\<close>

definition raise_for_status :: "world \<Rightarrow> response \<Rightarrow> exn option" where
  "raise_for_status W r =
     (if 400 \<le> status_code r \<and> status_code r < 600 then Some (HTTPError (http_error_message W r))
      else None)"

definition header_get :: "response \<Rightarrow> string \<Rightarrow> string option" where
  "header_get r name = map_of (map (\<lambda>(k, v). (lower k, v)) (headers r)) (lower name)"

definition is_redirect :: "response \<Rightarrow> bool" where
  "is_redirect r = (status_code r \<in> set [301, 302, 303, 307, 308])"

section \<open>State-token tracker and partial-response unwrapper\<close>

definition PARTIAL_RESPONSE :: string where
  "PARTIAL_RESPONSE = ''<partial-response''"

text \<open>The loop of \<open>_refresh_view_state_from_html\<close> over \<open>root.iter()\<close>: the first update
  element with the state token in its id and a text that is not empty after trimming.\<close>

fun first_view_state_update :: "xml list \<Rightarrow> string option" where
  "first_view_state_update [] = None"
| "first_view_state_update (elem # elems) =
     (if \<not> is_update elem then first_view_state_update elems
      else if contains (lower (or_empty (map_of (xml_attrib elem) ''id''))) ''javax.faces.viewstate''
        then (if update_text elem \<noteq> [] then Some (update_text elem)
              else first_view_state_update elems)
      else first_view_state_update elems)"

text \<open>The token of the XML branch: \<open>None\<close> when the text is no envelope, when the parse
  raises (the exception is caught) and when the loop ends without a token.\<close>

definition xml_view_state :: "world \<Rightarrow> string \<Rightarrow> string option" where
  "xml_view_state W text =
     (if contains (lower text) PARTIAL_RESPONSE then
        (case xml_fromstring W text of
           None \<Rightarrow> None
         | Some root \<Rightarrow> first_view_state_update (xml_iter root))
      else None)"

text \<open>The token of the HTML branch: the value of the first input named
  \<open>javax.faces.ViewState\<close>, when it has one that is not empty.\<close>

definition html_view_state :: "node list \<Rightarrow> string option" where
  "html_view_state soup =
     (case find is_view_state_input (doc_order soup) of
        None \<Rightarrow> None
      | Some inp \<Rightarrow> (if or_empty (get_attr inp ''value'') \<noteq> [] then get_attr inp ''value''
                     else None))"

text \<open>
  \<open>_refresh_view_state_from_html\<close>. The XML parse stands in a \<open>try\<close>; the HTML parse of
  line 147 stands outside it, so its exception leaves the method, before anything is
  assigned. The result is the exception, or the session after the refresh.
\<close>

definition refresh_view_state_from_html :: "world \<Rightarrow> session \<Rightarrow> string \<Rightarrow> exn + session" where
  "refresh_view_state_from_html W s html_text =
     (case xml_view_state W html_text of
        Some v \<Rightarrow> Inr (s\<lparr>view_state_value := Some v\<rparr>)
      | None \<Rightarrow>
          (case html_parser W html_text of
             Inl e \<Rightarrow> Inl e
           | Inr soup \<Rightarrow>
               (case html_view_state soup of
                  Some v \<Rightarrow> Inr (s\<lparr>view_state_value := Some v\<rparr>)
                | None \<Rightarrow> Inr s)))"

text \<open>The loop of \<open>_unwrap_jsf_partial_response\<close> that collects the chunks.\<close>

fun update_chunks :: "world \<Rightarrow> xml list \<Rightarrow> string list" where
  "update_chunks W [] = []"
| "update_chunks W (elem # elems) =
     (if \<not> is_update elem then update_chunks W elems
      else if update_text elem = [] then update_chunks W elems
      else html_unescape W (update_text elem) # update_chunks W elems)"

definition unwrap_jsf_partial_response :: "world \<Rightarrow> string \<Rightarrow> string" where
  "unwrap_jsf_partial_response W text =
     (if \<not> contains (lower text) PARTIAL_RESPONSE then text
      else
        (case xml_fromstring W text of
           None \<Rightarrow> text
         | Some root \<Rightarrow>
             (let chunks = update_chunks W (xml_iter root) in
              if chunks \<noteq> [] then join [CHR 0x0A] chunks else text)))"

section \<open>Authentication\<close>

text \<open>The messages of the exceptions; the letters beyond ASCII are given by code point.\<close>

definition MSG_NO_COOKIE :: string where
  "MSG_NO_COOKIE = ''No hay cookie de sesi'' @ [CHR 0xF3] @ ''n. Env'' @ [CHR 0xED] @ ''a '' @
     [CHR 0x27] @ ''cookie'' @ [CHR 0x27] @ '' o activa '' @
     [CHR 0x27] @ ''use_server_auth'' @ [CHR 0x27] @ ''.''"

definition MSG_NO_CREDENTIALS :: string where
  "MSG_NO_CREDENTIALS =
     ''Faltan variables de entorno LIBERTADOR_USER/LIBERTADOR_PASS para autenticar.''"

definition MSG_REDIRECT :: string where
  "MSG_REDIRECT = ''Redirect sin Location en landing.''"

definition MSG_NO_VIEW_STATE :: string where
  "MSG_NO_VIEW_STATE = ''No se encontr'' @ [CHR 0xF3] @ '' ViewState.''"

definition MSG_NO_INDEX_VIEW_STATE :: string where
  "MSG_NO_INDEX_VIEW_STATE =
     ''No se encontr'' @ [CHR 0xF3] @ '' javax.faces.ViewState en index.xhtml''"

definition MSG_NO_FORM :: string where
  "MSG_NO_FORM = ''No se encontr'' @ [CHR 0xF3] @ '' formulario de consulta en index.xhtml''"

definition login_url :: string where
  "login_url = ''https://www.segurosbolivar.com/indemnizaciones-web/login.html''"

text \<open>The loop \<open>for _ in range(3)\<close> of \<open>authenticate\<close>: a redirect with a location is
  followed, one without ends the loop, and any other answer is kept.\<close>

fun follow_redirects ::
  "world \<Rightarrow> nat \<Rightarrow> response \<Rightarrow> session \<Rightarrow> (exn + response) \<times> session" where
  "follow_redirects W 0 r s = (Inr r, s)"
| "follow_redirects W (Suc n) r s =
     (if is_redirect r then
        (if or_empty (header_get r ''Location'') = [] then (Inr r, s)
         else
           (case send W s (http_get (or_empty (header_get r ''Location'')) False None) of
              (Inl e, s') \<Rightarrow> (Inl e, s')
            | (Inr r', s') \<Rightarrow> follow_redirects W n r' s'))
      else follow_redirects W n r s)"

definition authenticate :: "world \<Rightarrow> session \<Rightarrow> (exn + unit) \<times> session" where
  "authenticate W s =
     (case send W s
         (http_post ''https://registro.segurosbolivar.com/nidp/idff/sso''
            [(''id'', ''620''), (''sid'', ''0''), (''option'', ''credential''),
             (''target'', login_url)]
            [(''Num_Documento'', or_empty (user_id s)), (''Ecom_User_ID'', or_empty (user_id s)),
             (''Ecom_Password'', or_empty (password s)), (''form'', ''INGRESA'')]
            [] None) of
        (Inl e, s1) \<Rightarrow> (Inl e, s1)
      | (Inr r0, s1) \<Rightarrow>
     (case send W s1 (http_get login_url False None) of
        (Inl e, s2) \<Rightarrow> (Inl e, s2)
      | (Inr r, s2) \<Rightarrow>
     (case follow_redirects W 3 r s2 of
        (Inl e, s3) \<Rightarrow> (Inl e, s3)
      | (Inr r', s3) \<Rightarrow>
     (case send W s3
         (http_post ''https://www.segurosbolivar.com/indemnizaciones-web/Ingreso''
            [(''nov-ss-ff-silent'', ''''), (''mastercdnff-indemnizacion-web3310'', '''')]
            [(''login'', or_empty (user_id s)), (''rol'', ''WSINMOB01''),
             (''nov-ss-ff-Npst'', ''mastercdnff-indemnizacion-web3310'')]
            [] None) of
        (Inl e, s4) \<Rightarrow> (Inl e, s4)
      | (Inr r1, s4) \<Rightarrow>
     (case send W s4 (http_get index_url False None) of
        (Inl e, s5) \<Rightarrow> (Inl e, s5)
      | (Inr landing, s5) \<Rightarrow>
     (case (if is_redirect landing then
              (if or_empty (header_get landing ''Location'') = []
               then (Inl (PlainException MSG_REDIRECT), s5)
               else send W s5 (http_get (or_empty (header_get landing ''Location'')) True None))
            else (Inr landing, s5)) of
        (Inl e, s6) \<Rightarrow> (Inl e, s6)
      | (Inr final, s6) \<Rightarrow>
     (case html_parser W (body_text final) of
        Inl e \<Rightarrow> (Inl e, s6)
      | Inr soup \<Rightarrow>
     (case find is_view_state_input (doc_order soup) of
        None \<Rightarrow> (Inl (PlainException MSG_NO_VIEW_STATE), s6)
      | Some inp \<Rightarrow> (Inr (), s6\<lparr>view_state_value := get_attr inp ''value''\<rparr>)))))))))"

definition ensure_authenticated :: "world \<Rightarrow> session \<Rightarrow> (exn + unit) \<times> session" where
  "ensure_authenticated W s =
     (if is_authenticated s then (Inr (), s)
      else if cookie_header s \<noteq> [] then (Inr (), s\<lparr>is_authenticated := True\<rparr>)
      else if \<not> use_server_auth s then (Inl (ValueError MSG_NO_COOKIE), s)
      else if or_empty (user_id s) = [] \<or> or_empty (password s) = []
        then (Inl (ValueError MSG_NO_CREDENTIALS), s)
      else
        (case authenticate W s of
           (Inl e, s') \<Rightarrow> (Inl e, s')
         | (Inr u, s') \<Rightarrow> (Inr (), s'\<lparr>is_authenticated := True\<rparr>)))"

section \<open>Field extraction from the request-data table\<close>

text \<open>
  \<open>re.compile(r"estado\s*siniestro", re.I).search\<close> and
  \<open>re.compile(r"\b(inquilino|asegurado)\b", re.I).search\<close>, on the lower-cased text.
\<close>

definition estado_siniestro_here :: "string \<Rightarrow> bool" where
  "estado_siniestro_here s =
     (startswith s ''estado'' \<and> startswith (dropWhile isspace (drop 6 s)) ''siniestro'')"

fun search_estado_siniestro :: "string \<Rightarrow> bool" where
  "search_estado_siniestro [] = False"
| "search_estado_siniestro (c # cs) =
     (estado_siniestro_here (c # cs) \<or> search_estado_siniestro cs)"

definition word_here :: "string \<Rightarrow> string \<Rightarrow> bool" where
  "word_here w s =
     (startswith s w \<and> (case drop (length w) s of [] \<Rightarrow> True | c # cs \<Rightarrow> \<not> is_word c))"

fun search_asegurado_from :: "bool \<Rightarrow> string \<Rightarrow> bool" where
  "search_asegurado_from after_word [] = False"
| "search_asegurado_from after_word (c # cs) =
     ((\<not> after_word \<and> (word_here ''inquilino'' (c # cs) \<or> word_here ''asegurado'' (c # cs)))
      \<or> search_asegurado_from (is_word c) cs)"

datatype label_pattern = EstadoSiniestro | InquilinoAsegurado

fun pattern_search :: "label_pattern \<Rightarrow> string \<Rightarrow> bool" where
  "pattern_search EstadoSiniestro s = search_estado_siniestro (lower s)"
| "pattern_search InquilinoAsegurado s = search_asegurado_from False (lower s)"

text \<open>\<open>tag.string\<close>: the only child when it is a string, the \<open>string\<close> of the only child
  when it is a tag, and otherwise nothing.\<close>

fun dot_string :: "node \<Rightarrow> string option" where
  "dot_string (Tag n a [c]) = dot_string c"
| "dot_string (Tag n a cs) = None"
| "dot_string (Text s) = Some s"
| "dot_string (Special s) = Some s"

definition label_matches :: "label_pattern \<Rightarrow> node \<Rightarrow> bool" where
  "label_matches pat t =
     (named [''label''] t \<and>
      (case dot_string t of None \<Rightarrow> False | Some s \<Rightarrow> pattern_search pat s))"

text \<open>The first element of a list that satisfies a predicate, with what follows it.\<close>

fun split_at_first :: "(node \<Rightarrow> bool) \<Rightarrow> node list \<Rightarrow> (node \<times> node list) option" where
  "split_at_first P [] = None"
| "split_at_first P (x # xs) = (if P x then Some (x, xs) else split_at_first P xs)"

definition is_datos_table :: "node \<Rightarrow> bool" where
  "is_datos_table t =
     (named [''table''] t \<and>
      endswith (lower (strip (or_empty (get_attr t ''id'')))) ''datossolicitud'')"

text \<open>
  \<open>_extract_label_value_from_datos_solicitud\<close>. \<open>following\<close> is the document after the
  table, in document order; it starts with the descendants of the table. The label is
  looked for among these descendants, the label after it (\<open>find_next\<close>) in all that
  follows the label in the document.
\<close>

definition extract_label_value ::
  "node \<Rightarrow> node list \<Rightarrow> label_pattern \<Rightarrow> string option" where
  "extract_label_value datos_table following pat =
     (let n = length (descendants datos_table) in
      case split_at_first (label_matches pat) (take n following) of
        None \<Rightarrow> None
      | Some (label, rest) \<Rightarrow>
          (case find (named [''label'']) (drop (n - length rest) following) of
             None \<Rightarrow> None
           | Some next_label \<Rightarrow>
               (if get_text next_label = [] then None else Some (get_text next_label))))"

definition extract_info_from_html ::
  "world \<Rightarrow> string \<Rightarrow> exn + string option \<times> string option" where
  "extract_info_from_html W html_text =
     (let candidate_markup = unwrap_jsf_partial_response W html_text in
      case html_parser W candidate_markup of
        Inl e \<Rightarrow> Inl e
      | Inr soup \<Rightarrow>
          (case split_at_first is_datos_table (doc_order soup) of
             None \<Rightarrow> Inr (None, None)
           | Some (datos_table, following) \<Rightarrow>
               Inr (extract_label_value datos_table following EstadoSiniestro,
                    extract_label_value datos_table following InquilinoAsegurado)))"

section \<open>The query of one identifier\<close>

definition NO_ENCONTRADO :: string where
  "NO_ENCONTRADO = ''NO ENCONTRADO''"

definition get_index :: "world \<Rightarrow> session \<Rightarrow> (exn + string) \<times> session" where
  "get_index W s =
     (case send W s (http_get index_url True (Some 30)) of
        (Inl e, s1) \<Rightarrow> (Inl e, s1)
      | (Inr resp, s1) \<Rightarrow>
          (case raise_for_status W resp of
             Some e \<Rightarrow> (Inl e, s1)
           | None \<Rightarrow>
               (case refresh_view_state_from_html W s1 (body_text resp) of
                  Inl e \<Rightarrow> (Inl e, s1)
                | Inr s2 \<Rightarrow> (Inr (body_text resp), s2))))"

text \<open>\<open>_find_search_form\<close> on the text of a page: the page is parsed, then resolved.\<close>

definition find_search_form_html :: "world \<Rightarrow> string \<Rightarrow> exn + node option" where
  "find_search_form_html W html_text =
     (case html_parser W html_text of
        Inl e \<Rightarrow> Inl e
      | Inr soup \<Rightarrow> Inr (find_search_form soup))"

text \<open>The request that submits the form.\<close>

definition search_request :: "string \<Rightarrow> node \<Rightarrow> string \<Rightarrow> string \<Rightarrow> request" where
  "search_request post_url form solicitud view_state =
     http_post post_url [] (build_payload form solicitud view_state)
       [(''Referer'', index_url)] (Some 30)"

definition get_info_for_radicado ::
  "world \<Rightarrow> session \<Rightarrow> string \<Rightarrow> (exn + string \<times> string \<times> string option) \<times> session" where
  "get_info_for_radicado W s radicado =
     (let solicitud = strip radicado in
      if solicitud = [] then (Inr (NO_ENCONTRADO, NO_ENCONTRADO, None), s)
      else
     (case ensure_authenticated W s of
        (Inl e, s1) \<Rightarrow> (Inl e, s1)
      | (Inr u, s1) \<Rightarrow>
     (case get_index W s1 of
        (Inl e, s2) \<Rightarrow> (Inl e, s2)
      | (Inr index_html, s2) \<Rightarrow>
     (if or_empty (view_state_value s2) = []
      then (Inl (PlainException MSG_NO_INDEX_VIEW_STATE), s2)
      else
     (case find_search_form_html W index_html of
        Inl e \<Rightarrow> (Inl e, s2)
      | Inr None \<Rightarrow> (Inl (PlainException MSG_NO_FORM), s2)
      | Inr (Some form) \<Rightarrow>
     (case urljoin W index_url
             (if or_empty (get_attr form ''action'') \<noteq> [] then or_empty (get_attr form ''action'')
              else index_url) of
        Inl e \<Rightarrow> (Inl e, s2)
      | Inr post_url \<Rightarrow>
     (case send W s2
             (search_request post_url form solicitud (or_empty (view_state_value s2))) of
        (Inl e, s3) \<Rightarrow> (Inl e, s3)
      | (Inr resp, s3) \<Rightarrow>
     (case raise_for_status W resp of
        Some e \<Rightarrow> (Inl e, s3)
      | None \<Rightarrow>
     (case refresh_view_state_from_html W s3 (body_text resp) of
        Inl e \<Rightarrow> (Inl e, s3)
      | Inr s4 \<Rightarrow>
     (case extract_info_from_html W (body_text resp) of
        Inl e \<Rightarrow> (Inl e, s4)
      | Inr info \<Rightarrow>
          (if or_empty (fst info) = []
           then (Inr (NO_ENCONTRADO, NO_ENCONTRADO, snd info), s4)
           else (Inr (or_empty (fst info), normalize_estado (fst info), snd info),
                 s4))))))))))))"

section \<open>The batch endpoint\<close>

record bolivar_result =
  radicado :: string
  ok :: bool
  estado_raw :: "string option"
  estado_normalizado :: "string option"
  asegurado :: "string option"
  consulted_at :: string
  error :: "string option"

text \<open>The three branches of the \<open>try\<close> statement of the loop.\<close>

definition failed_result :: "string \<Rightarrow> string \<Rightarrow> exn \<Rightarrow> bolivar_result" where
  "failed_result r t exc =
     \<lparr> radicado = r, ok = False, estado_raw = None, estado_normalizado = Some NO_ENCONTRADO,
       asegurado = None, consulted_at = t, error = Some (str_exc exc) \<rparr>"

definition result_of ::
  "string \<Rightarrow> string \<Rightarrow> exn + string \<times> string \<times> string option \<Rightarrow> bolivar_result" where
  "result_of r t outcome =
     (case outcome of
        Inr (raw, norm, aseg) \<Rightarrow>
          \<lparr> radicado = r, ok = True, estado_raw = Some raw, estado_normalizado = Some norm,
            asegurado = aseg, consulted_at = t, error = None \<rparr>
      | Inl exc \<Rightarrow>
          (case exc of
             NotImplementedError m \<Rightarrow> failed_result r t (NotImplementedError m)
           | _ \<Rightarrow> failed_result r t exc))"

text \<open>The loop over the identifiers; \<open>tick\<close> counts the readings of the clock.\<close>

fun query_all ::
  "world \<Rightarrow> session \<Rightarrow> nat \<Rightarrow> string list \<Rightarrow> bolivar_result list \<times> session" where
  "query_all W s tick [] = ([], s)"
| "query_all W s tick (r # rs) =
     (case get_info_for_radicado W s r of
        (outcome, s') \<Rightarrow>
          (case query_all W s' (Suc tick) rs of
             (results, s'') \<Rightarrow> (result_of r (clock W tick) outcome # results, s'')))"

record request_data =
  req_cookie :: "string option"
  req_radicados :: radicados_value
  req_use_server_auth :: bool

datatype api_response =
    Bad_Request string
  | Ok_Response string nat "bolivar_result list"

definition MSG_MISSING_AUTH :: string where
  "MSG_MISSING_AUTH = ''Falta '' @ [CHR 0x27] @ ''cookie'' @ [CHR 0x27] @ '' o '' @
     [CHR 0x27] @ ''use_server_auth=true'' @ [CHR 0x27] @
     ''. Este sistema solo consulta; no ejecuta acciones cr'' @ [CHR 0xED] @ ''ticas.''"

definition MSG_MISSING_RADICADOS :: string where
  "MSG_MISSING_RADICADOS = ''Falta '' @ [CHR 0x27] @ ''radicados'' @ [CHR 0x27] @
     '' (lista o texto con radicados).''"

definition MSG_SESSION :: string where
  "MSG_SESSION = ''No se pudo inicializar sesi'' @ [CHR 0xF3] @ ''n: ''"

text \<open>\<open>bolivar_radicados\<close>: the response, and the requests that were sent to the portal.\<close>

definition bolivar_radicados :: "world \<Rightarrow> request_data \<Rightarrow> api_response \<times> request list" where
  "bolivar_radicados W req =
     (let header = normalize_cookie_header (req_cookie req);
          rads = normalize_radicados (req_radicados req);
          server_auth = req_use_server_auth req
      in if header = [] \<and> \<not> server_auth then (Bad_Request MSG_MISSING_AUTH, [])
         else if rads = [] then (Bad_Request MSG_MISSING_RADICADOS, [])
         else
           (case new_session W (if header \<noteq> [] then Some header else None) server_auth of
              Inl exc \<Rightarrow> (Bad_Request (MSG_SESSION @ str_exc exc), [])
            | Inr s \<Rightarrow>
                (case query_all W s 1 rads of
                   (results, s') \<Rightarrow>
                     (Ok_Response (clock W 0) (length results) results, sent s'))))"

section \<open>Notions of the specification\<close>

text \<open>
  The identifiers of a request, before duplicates are removed: the trimmed candidates
  that are not empty.
\<close>

definition identifiers :: "radicados_value \<Rightarrow> string list" where
  "identifiers v =
     (case v of
        RNone \<Rightarrow> []
      | RStr s \<Rightarrow> stripped_nonempty (candidates s)
      | RList vs \<Rightarrow> stripped_nonempty vs
      | ROther s \<Rightarrow> stripped_nonempty [s])"

text \<open>A text cut at every character of a class: the pieces between them.\<close>

fun split_where :: "(char \<Rightarrow> bool) \<Rightarrow> string \<Rightarrow> string list" where
  "split_where P [] = [[]]"
| "split_where P (c # cs) =
     (if P c then [] # split_where P cs
      else (case split_where P cs of
              [] \<Rightarrow> [[c]]
            | w # ws \<Rightarrow> (c # w) # ws))"

definition is_separator :: "char \<Rightarrow> bool" where
  "is_separator c = (c = CHR 0x0D \<or> c = CHR 0x0A \<or> c = CHR '','' \<or> c = CHR '';'')"

text \<open>The elements of a list at the positions where they occur for the first time:
  one per distinct element, in first-seen order.\<close>

definition first_occurrences :: "'a list \<Rightarrow> 'a list" where
  "first_occurrences xs =
     map (\<lambda>k. xs ! k) (filter (\<lambda>k. xs ! k \<notin> set (take k xs)) [0..<length xs])"

text \<open>The session in which the query of an identifier starts, after the queries of
  the identifiers before it.\<close>

fun session_after :: "world \<Rightarrow> session \<Rightarrow> string list \<Rightarrow> session" where
  "session_after W s [] = s"
| "session_after W s (r # rs) = session_after W (snd (get_info_for_radicado W s r)) rs"

text \<open>
  The state tokens of a document: the trimmed texts of the update elements that carry
  the state token in their id, when the document is an envelope that parses, and the
  values of the inputs named \<open>javax.faces.ViewState\<close> of the parsed markup; the empty ones
  are left out.
\<close>

definition document_tokens :: "world \<Rightarrow> string \<Rightarrow> string list" where
  "document_tokens W text =
     filter (\<lambda>v. v \<noteq> [])
       ((if contains (lower text) PARTIAL_RESPONSE then
           (case xml_fromstring W text of
              None \<Rightarrow> []
            | Some root \<Rightarrow>
                map update_text
                  (filter (\<lambda>e. is_update e \<and>
                     contains (lower (or_empty (map_of (xml_attrib e) ''id'')))
                       ''javax.faces.viewstate'')
                   (xml_iter root)))
         else []) @
        (case html_parser W text of
           Inl e \<Rightarrow> []
         | Inr soup \<Rightarrow>
             map (\<lambda>t. or_empty (get_attr t ''value''))
               (filter is_view_state_input (doc_order soup))))"

section \<open>A portal for the examples\<close>

text \<open>
  A landing page with a menu form and the search form, and an answer with the
  request-data table. The portal answers every request with status 200: the landing
  page to a GET, the answer to a POST; the query of \<open>A-200\<close> times out.
\<close>

definition menu_form :: node where
  "menu_form =
     Tag ''form'' [(''id'', ''menu''), (''action'', ''/menu.xhtml'')]
       [Tag ''input'' [(''type'', ''hidden''), (''name'', ''javax.faces.ViewState''),
                       (''value'', ''TOKEN-1'')] []]"

definition search_form :: node where
  "search_form =
     Tag ''form'' [(''id'', ''FormIndex''), (''action'', ''/pages/index.xhtml'')]
       [Tag ''input'' [(''type'', ''hidden''), (''name'', ''FormIndex''),
                       (''value'', ''FormIndex'')] [],
        Tag ''input'' [(''type'', ''text''), (''name'', ''FormIndex:busqueda'')] [],
        Tag ''button'' [(''name'', ''FormIndex:j_idt42''), (''type'', ''submit'')]
          [Text ''BUSCAR''],
        Tag ''input'' [(''type'', ''hidden''), (''name'', ''javax.faces.ViewState''),
                       (''value'', ''TOKEN-1'')] []]"

definition landing_page :: "node list" where
  "landing_page = [Tag ''html'' [] [menu_form, search_form]]"

definition answer_page :: "node list" where
  "answer_page =
     [Tag ''table'' [(''id'', ''FormIndex:datosSolicitud'')]
        [Tag ''tr'' []
           [Tag ''td'' [] [Tag ''label'' [] [Text ''Estado Siniestro:'']],
            Tag ''td'' [] [Tag ''label'' [] [Text ''Nuevo'']]],
         Tag ''tr'' []
           [Tag ''td'' [] [Tag ''label'' [] [Text ''Inquilino:'']],
            Tag ''td'' [] [Tag ''label'' [] [Text ''Ana Perez'']]]]]"

text \<open>A text that the HTML parser rejects.\<close>

definition REJECTED_MARKUP :: string where
  "REJECTED_MARKUP = ''<p>ok</p><![ x ]>''"

definition portal :: world where
  "portal =
     \<lparr> html_parser = (\<lambda>t. if t = ''landing'' then Inr landing_page
                           else if t = ''answer'' then Inr answer_page
                           else if t = REJECTED_MARKUP
                             then Inl (OtherException ''ParserRejectedMarkup'')
                           else Inr []),
       xml_fromstring = (\<lambda>t. None),
       html_unescape = (\<lambda>t. t),
       urljoin = (\<lambda>base u. Inr (''https://www.segurosbolivar.com'' @ u)),
       cookie_load = (\<lambda>t. Inr [(''JSESSIONID'', ''abc'')]),
       http_send = (\<lambda>jar before r.
          if rmethod r = ''GET''
          then Inr \<lparr> status_code = 200, headers = [], body_text = ''landing'' \<rparr>
          else if map_of (rdata r) ''FormIndex:busqueda'' = Some ''A-200''
          then Inl (OtherException ''timeout'')
          else Inr \<lparr> status_code = 200, headers = [], body_text = ''answer'' \<rparr>),
       http_error_message = (\<lambda>r. ''error''),
       clock = (\<lambda>n. ''T'' @ replicate n (CHR ''+'')),
       LIBERTADOR_USER = None,
       LIBERTADOR_PASS = None,
       LIBERTADOR_POLIZA = None \<rparr>"

text \<open>A page of two search forms: the first posts to the landing page, the second is
  named \<open>FormIndex\<close> with a blank after it, and its search field is written with a capital.\<close>

definition posting_form :: node where
  "posting_form =
     Tag ''form'' [(''id'', ''consulta''), (''action'', ''/pages/index.xhtml'')]
       [Tag ''input'' [(''type'', ''text''), (''name'', ''consulta:busqueda'')] []]"

definition padded_form :: node where
  "padded_form =
     Tag ''form'' [(''id'', ''j_idt7''), (''name'', ''FormIndex '')]
       [Tag ''input'' [(''type'', ''text''), (''id'', ''f:txtBusqueda'')] []]"

definition two_forms_page :: "node list" where
  "two_forms_page = [Tag ''body'' [] [posting_form, padded_form]]"

definition portal_session :: session where
  "portal_session =
     \<lparr> cookie_header = ''JSESSIONID=abc'', use_server_auth = False, user_id = None,
       password = None, poliza = None, view_state_value = Some ''TOKEN-0'',
       is_authenticated = False, cookies = [(''JSESSIONID'', ''abc'')], sent = [] \<rparr>"

definition anonymous_session :: session where
  "anonymous_session =
     \<lparr> cookie_header = [], use_server_auth = False, user_id = None,
       password = None, poliza = None, view_state_value = None,
       is_authenticated = False, cookies = [], sent = [] \<rparr>"

text \<open>A form whose submit button carries the name of the state-token field.\<close>

definition shadowing_form :: node where
  "shadowing_form =
     Tag ''form'' [(''id'', ''FormIndex'')]
       [Tag ''input'' [(''type'', ''hidden''), (''name'', ''javax.faces.ViewState''),
                       (''value'', ''TOKEN-1'')] [],
        Tag ''input'' [(''type'', ''text''), (''name'', ''busqueda'')] [],
        Tag ''button'' [(''name'', ''javax.faces.ViewState'')] [Text ''Buscar'']]"

section \<open>Properties of the string functions\<close>

lemma startswith_prefix: "startswith s p \<longleftrightarrow> prefix p s"
  by (induction s p rule: startswith.induct) auto

lemma contains_sublist: "contains s p \<longleftrightarrow> sublist p s"
  by (induction s) (auto simp: startswith_prefix sublist_Cons_right)

lemma endswith_suffix: "endswith s p \<longleftrightarrow> suffix p s"
  by (simp add: endswith_def startswith_prefix suffix_to_prefix)

lemma contains_trans: "contains s p \<Longrightarrow> contains p q \<Longrightarrow> contains s q"
  unfolding contains_sublist by (blast intro: sublist_order.order.trans)

text \<open>The tables at work on characters beyond ASCII.\<close>

lemma string_tables_examples:
  "strip ([CHR 0xA0] @ ''a b'' @ [CHR 0x85, CHR 0x20]) = ''a b''"
  "lower (''Tel'' @ [CHR 0xC9] @ ''FONO'') = ''tel'' @ [CHR 0xE9] @ ''fono''"
  "upper (''stra'' @ [CHR 0xDF] @ ''e '' @ [CHR 0xF1, CHR 0xF7]) = ''STRASSE '' @ [CHR 0xD1, CHR 0xF7]"
  "collapse_ws (''a'' @ [CHR 0xA0, CHR 0x09] @ ''b'') = ''a b''"
  "search_j_idt ''form:j_idt42''"
  "\<not> search_j_idt ([CHR 0xE9] @ ''j_idt5'')"
  "normalize_radicados (RStr (''123'' @ [CHR 0xA0] @ '',123'')) = [''123'']"
  by code_simp+

section \<open>Claims about the status normalizer\<close>



text \<open>White space beyond ASCII is trimmed as well: a no-break space alone is an empty
  status.\<close>

lemma normalize_estado_no_break_space:
  "normalize_estado (Some [CHR 0xA0]) = ''NO ENCONTRADO''"
  "normalize_estado (Some ([CHR 0x85] @ ''Nuevo'' @ [CHR 0xA0])) = ''SIN DESISTIR''"
  by code_simp+

text \<open>
  C3. The source tests for "desist" before it tests for "sin desist", so a status
  whose lower-cased form contains "sin desist" is always answered DESISTIDO; the branch
  that would answer SIN DESISTIR for it is never reached. At the claim's own example
  "Sin desistir" the normalizer returns DESISTIDO.
\<close>

theorem normalize_estado_sin_desistir:
  "normalize_estado (Some ''Sin desistir'') = ''DESISTIDO''"
  by code_simp

text \<open>
  The same holds of every status with "sin desist" in its lower-cased form, while the
  phrases "no ha pagado" and "sin pagar" are answered SIN DESISTIR when the status has
  neither "desist" nor "report" in it.
\<close>

lemma sin_desist_branch_unreachable:
  assumes "contains (lower (strip raw)) ''sin desist''"
  shows "normalize_estado (Some raw) = ''DESISTIDO''"
proof -
  have "contains ''sin desist'' ''desist''"
    by code_simp
  with assms have d: "contains (lower (strip raw)) ''desist''"
    by (rule contains_trans)
  have "\<not> contains [] ''desist''" "\<not> contains ''nuevo'' ''desist''"
    by code_simp+
  with d have "lower (strip raw) \<noteq> []" "lower (strip raw) \<noteq> ''nuevo''"
    by auto
  with d show ?thesis
    by (auto simp: normalize_estado_def or_empty_def Let_def lower_def)
qed

lemma payment_phrases_not_withdrawn:
  assumes "contains (lower (strip raw)) ''no ha pagado'' \<or> contains (lower (strip raw)) ''sin pagar''"
    and "\<not> contains (lower (strip raw)) ''desist''"
    and "\<not> contains (lower (strip raw)) ''report''"
  shows "normalize_estado (Some raw) = ''SIN DESISTIR''"
proof -
  have "\<not> contains [] ''no ha pagado''" "\<not> contains [] ''sin pagar''"
    by code_simp+
  with assms(1) have "lower (strip raw) \<noteq> []"
    by auto
  with assms show ?thesis
    by (auto simp: normalize_estado_def or_empty_def Let_def lower_def)
qed

section \<open>Removing duplicates\<close>

lemma first_occurrences_Nil: "first_occurrences [] = []"
  by (simp add: first_occurrences_def)

lemma first_occurrences_Cons:
  "first_occurrences (x # xs) = x # filter (\<lambda>y. y \<noteq> x) (first_occurrences xs)"
proof -
  have upt: "[0..<length (x # xs)] = 0 # map Suc [0..<length xs]"
    by (simp add: upt_conv_Cons map_Suc_upt del: upt_Suc)
  have "first_occurrences (x # xs) =
        x # map (\<lambda>k. xs ! k)
              (filter (\<lambda>k. xs ! k \<noteq> x \<and> xs ! k \<notin> set (take k xs)) [0..<length xs])"
    unfolding first_occurrences_def upt
    by (simp add: filter_map comp_def)
  also have "map (\<lambda>k. xs ! k)
               (filter (\<lambda>k. xs ! k \<noteq> x \<and> xs ! k \<notin> set (take k xs)) [0..<length xs])
      = filter (\<lambda>y. y \<noteq> x) (first_occurrences xs)"
    unfolding first_occurrences_def
    by (simp add: filter_map comp_def conj_commute)
  finally show ?thesis .
qed

lemma set_first_occurrences: "set (first_occurrences xs) = set xs"
  by (induction xs) (auto simp: first_occurrences_Nil first_occurrences_Cons)

lemma distinct_first_occurrences: "distinct (first_occurrences xs)"
  by (induction xs) (auto simp: first_occurrences_Nil first_occurrences_Cons)

text \<open>The invariant of the loop: \<open>seen\<close> is the set of \<open>unique\<close>.\<close>

lemma dedup_loop_first_occurrences:
  "dedup_loop xs (set u) u = u @ filter (\<lambda>x. x \<notin> set u) (first_occurrences xs)"
proof (induction xs arbitrary: u)
  case Nil
  then show ?case by (simp add: first_occurrences_Nil)
next
  case (Cons r rs)
  show ?case
  proof (cases "r \<in> set u")
    case True
    have "filter (\<lambda>x. x \<notin> set u) (filter (\<lambda>y. y \<noteq> r) (first_occurrences rs))
          = filter (\<lambda>x. x \<notin> set u) (first_occurrences rs)"
      using True by (auto intro: filter_cong)
    with True Cons.IH [of u] show ?thesis
      by (simp add: first_occurrences_Cons)
  next
    case False
    have "dedup_loop (r # rs) (set u) u = dedup_loop rs (set (u @ [r])) (u @ [r])"
      using False by simp
    also have "\<dots> = (u @ [r]) @ filter (\<lambda>x. x \<notin> set (u @ [r])) (first_occurrences rs)"
      by (rule Cons.IH)
    also have "filter (\<lambda>x. x \<notin> set (u @ [r])) (first_occurrences rs)
        = filter (\<lambda>x. x \<notin> set u) (filter (\<lambda>y. y \<noteq> r) (first_occurrences rs))"
      by (auto intro: filter_cong)
    finally show ?thesis
      using False by (simp add: first_occurrences_Cons)
  qed
qed

lemma dedup_loop_empty: "dedup_loop xs {} [] = first_occurrences xs"
  using dedup_loop_first_occurrences [of xs "[]"] by simp

lemma normalize_radicados_identifiers:
  "normalize_radicados v = first_occurrences (identifiers v)"
  by (cases v)
     (simp_all add: normalize_radicados_def identifiers_def dedup_loop_empty
        first_occurrences_Nil stripped_nonempty_def)

lemma split_char_replace:
  "split_char sep (replace_char a sep s) = split_where (\<lambda>c. c = a \<or> c = sep) s"
  by (induction s) (auto simp: replace_char_def split: list.splits)

lemma split_where_replace:
  "split_where P (replace_char a sep s) = split_where (\<lambda>c. c = a \<or> P c) s" if "P sep"
  using that by (induction s) (auto simp: replace_char_def split: list.splits)

lemma candidates_split_where: "candidates s = split_where is_separator s"
proof -
  have "candidates s =
        split_where (\<lambda>c. c = CHR 0x0D \<or> c = CHR '','' \<or> c = CHR '';'' \<or> c = CHR 0x0A) s"
    unfolding candidates_def
    by (simp add: split_char_replace split_where_replace)
  also have "(\<lambda>c. c = CHR 0x0D \<or> c = CHR '','' \<or> c = CHR '';'' \<or> c = CHR 0x0A) = is_separator"
    by (auto simp: is_separator_def fun_eq_iff)
  finally show ?thesis .
qed

section \<open>The loop of the batch\<close>

lemma result_of_failed: "result_of r t (Inl exc) = failed_result r t exc"
  by (cases exc) (simp_all add: result_of_def)

lemma result_of_radicado: "radicado (result_of r t outcome) = r"
  by (cases outcome) (auto simp: result_of_def failed_result_def split: exn.splits)

lemma result_of_time: "consulted_at (result_of r t outcome) = t"
  by (cases outcome) (auto simp: result_of_def failed_result_def split: exn.splits)

lemma result_of_returned:
  "result_of r t (Inr (raw, norm, name)) =
     \<lparr> radicado = r, ok = True, estado_raw = Some raw, estado_normalizado = Some norm,
       asegurado = name, consulted_at = t, error = None \<rparr>"
  by (simp add: result_of_def)

lemma result_of_raw: "\<not> ok (result_of r t outcome) \<Longrightarrow> estado_raw (result_of r t outcome) = None"
  by (cases outcome) (auto simp: result_of_def failed_result_def split: exn.splits)

lemma query_all_radicados:
  "query_all W s t rads = (results, s') \<Longrightarrow> map radicado results = rads"
proof (induction rads arbitrary: s t results s')
  case Nil
  then show ?case by simp
next
  case (Cons r rs)
  obtain outcome s1 where g: "get_info_for_radicado W s r = (outcome, s1)"
    by force
  obtain res2 s2 where q: "query_all W s1 (Suc t) rs = (res2, s2)"
    by force
  from Cons.prems g q have "results = result_of r (clock W t) outcome # res2"
    by simp
  with Cons.IH [OF q] show ?case
    by (simp add: result_of_radicado)
qed

lemma query_all_nth:
  "query_all W s t rads = (results, s') \<Longrightarrow> i < length rads \<Longrightarrow>
   results ! i =
     result_of (rads ! i) (clock W (t + i))
       (fst (get_info_for_radicado W (session_after W s (take i rads)) (rads ! i)))"
proof (induction rads arbitrary: s t results s' i)
  case Nil
  then show ?case by simp
next
  case (Cons r rs)
  obtain outcome s1 where g: "get_info_for_radicado W s r = (outcome, s1)"
    by force
  obtain res2 s2 where q: "query_all W s1 (Suc t) rs = (res2, s2)"
    by force
  from Cons.prems(1) g q have r: "results = result_of r (clock W t) outcome # res2"
    by simp
  show ?case
  proof (cases i)
    case 0
    with r g show ?thesis by simp
  next
    case (Suc j)
    with Cons.prems(2) have "j < length rs" by simp
    from Cons.IH [OF q this] r g Suc show ?thesis by simp
  qed
qed

lemma bolivar_radicados_Ok:
  assumes "bolivar_radicados W req = (Ok_Response fetched n out, requests)"
  shows "\<exists>s s'. query_all W s 1 (normalize_radicados (req_radicados req)) = (out, s') \<and>
           n = length out"
  using assms unfolding bolivar_radicados_def Let_def
  by (auto split: if_splits sum.splits prod.splits)

section \<open>The form resolver\<close>

lemma busqueda_forms_filter: "busqueda_forms fs = filter has_busqueda fs"
  by (induction fs) auto

lemma first_form_index_filter:
  "first_form_index fs =
     (if filter is_form_index fs = [] then None else Some (hd (filter is_form_index fs)))"
  by (induction fs) auto

lemma first_posting_to_index_filter:
  "first_posting_to_index fs =
     (if filter posts_to_index fs = [] then None else Some (hd (filter posts_to_index fs)))"
  by (induction fs) auto

lemma first_with_view_state_filter:
  "first_with_view_state fs =
     (if filter has_view_state fs = [] then None else Some (hd (filter has_view_state fs)))"
  by (induction fs) auto

lemma hd_filter_mem: "filter P xs \<noteq> [] \<Longrightarrow> hd (filter P xs) \<in> set xs"
  by (metis filter_is_subset hd_in_set subsetD)

text \<open>The tests of the source are the tests of the stated order.\<close>

lemma find_list_ex: "(\<exists>y. find P xs = Some y) \<longleftrightarrow> list_ex P xs"
  by (induction xs) auto

lemma list_ex_filter: "list_ex P xs \<longleftrightarrow> filter P xs \<noteq> []"
  by (induction xs) auto

lemma is_busqueda_field_spec: "is_busqueda_field = spec_search_field"
proof
  fix t
  show "is_busqueda_field t = spec_search_field t"
    by (cases t)
       (auto simp: is_busqueda_field_def spec_search_field_def named_def endswith_suffix
          or_empty_def)
qed

lemma is_view_state_input_spec: "is_view_state_input = spec_state_token_input"
proof
  fix t
  show "is_view_state_input t = spec_state_token_input t"
    by (cases t)
       (auto simp: is_view_state_input_def spec_state_token_input_def named_def VIEW_STATE_def)
qed

lemma has_busqueda_spec: "has_busqueda = spec_has_search_field"
  by (rule ext)
     (simp add: has_busqueda_def spec_has_search_field_def find_first_def find_list_ex
        is_busqueda_field_spec)

lemma has_view_state_spec: "has_view_state = spec_has_state_token"
  by (rule ext)
     (simp add: has_view_state_def spec_has_state_token_def find_first_def find_list_ex
        is_view_state_input_spec)

lemma strip_Nil: "strip [] = []"
  by (simp add: strip_def)

lemma is_form_index_spec: "is_form_index = spec_canonical"
proof
  fix t
  show "is_form_index t = spec_canonical t"
    by (cases t)
       (auto simp: is_form_index_def spec_canonical_def or_empty_def strip_Nil)
qed

lemma suffix_pages_index: "suffix ''/pages/index.xhtml'' a \<Longrightarrow> suffix ''index.xhtml'' a"
proof -
  assume "suffix ''/pages/index.xhtml'' a"
  moreover have "suffix ''index.xhtml'' ''/pages/index.xhtml''"
    by code_simp
  ultimately show ?thesis
    unfolding suffix_def by auto
qed

lemma lower_Nil: "lower [] = []"
  by (simp add: lower_def)

lemma posts_to_index_spec: "posts_to_index = spec_posts_to_landing"
proof
  fix t
  have "\<not> suffix ''index.xhtml'' []"
    by code_simp
  then show "posts_to_index t = spec_posts_to_landing t"
    by (cases t)
       (auto simp: posts_to_index_def spec_posts_to_landing_def or_empty_def endswith_suffix
          Let_def lower_Nil dest: suffix_pages_index)
qed

lemma resolve_form_spec_code:
  "resolve_form_spec forms =
     (if filter has_busqueda forms \<noteq> [] then
        (if filter is_form_index (filter has_busqueda forms) \<noteq> []
           then hd (filter is_form_index (filter has_busqueda forms))
         else if filter posts_to_index (filter has_busqueda forms) \<noteq> []
           then hd (filter posts_to_index (filter has_busqueda forms))
         else hd (filter has_busqueda forms))
      else if filter has_view_state forms \<noteq> [] then hd (filter has_view_state forms)
      else hd forms)"
  unfolding resolve_form_spec_def Let_def first_such_def list_ex_filter
    has_busqueda_spec has_view_state_spec is_form_index_spec posts_to_index_spec
  by (rule refl)

lemma resolve_form_spec_mem:
  assumes "forms \<noteq> []"
  shows "resolve_form_spec forms \<in> set forms"
proof -
  have sub: "hd (filter P (filter has_busqueda forms)) \<in> set forms"
    if "filter P (filter has_busqueda forms) \<noteq> []" for P
    using hd_filter_mem [OF that] by simp
  have b: "hd (filter has_busqueda forms) \<in> set forms" if "filter has_busqueda forms \<noteq> []"
    using hd_filter_mem [OF that] .
  have v: "hd (filter has_view_state forms) \<in> set forms" if "filter has_view_state forms \<noteq> []"
    using hd_filter_mem [OF that] .
  show ?thesis
    unfolding resolve_form_spec_code
    using sub [of is_form_index] sub [of posts_to_index] b v assms
    by (simp del: filter_filter)
qed

lemma find_search_form_spec:
  assumes "all_forms doc \<noteq> []"
  shows "find_search_form doc = Some (resolve_form_spec (all_forms doc))"
proof -
  obtain f0 rest where F: "all_forms doc = f0 # rest"
    using assms by (cases "all_forms doc") auto
  show ?thesis
  proof (cases "filter has_busqueda (f0 # rest)")
    case Nil
    then show ?thesis
      unfolding find_search_form_def resolve_form_spec_code F
      by (simp add: busqueda_forms_filter first_with_view_state_filter
            del: filter.simps first_with_view_state.simps busqueda_forms.simps)
  next
    case (Cons b0 bs)
    then show ?thesis
      unfolding find_search_form_def resolve_form_spec_code F
      by (simp add: busqueda_forms_filter first_form_index_filter first_posting_to_index_filter
            del: filter.simps first_form_index.simps first_posting_to_index.simps
              busqueda_forms.simps)
  qed
qed

lemma find_search_form_None: "find_search_form doc = None \<longleftrightarrow> all_forms doc = []"
  unfolding find_search_form_def
  by (simp split: list.splits option.splits)

section \<open>The state-token tracker\<close>

lemma first_view_state_update_Some:
  "first_view_state_update es = Some v \<Longrightarrow>
   v \<noteq> [] \<and> v \<in> set (map update_text (filter (\<lambda>e. is_update e \<and>
       contains (lower (or_empty (map_of (xml_attrib e) ''id''))) ''javax.faces.viewstate'') es))"
  by (induction es) (auto split: if_splits)

lemma mem_filter_appendI1: "P v \<Longrightarrow> v \<in> set A \<Longrightarrow> v \<in> set (filter P (A @ B))"
  by simp

lemma mem_filter_appendI2: "P v \<Longrightarrow> v \<in> set B \<Longrightarrow> v \<in> set (filter P (A @ B))"
  by simp

lemma in_set_mapI: "x \<in> set ys \<Longrightarrow> f x \<in> set (map f ys)"
  by simp

lemma find_SomeD: "find P xs = Some x \<Longrightarrow> x \<in> set xs \<and> P x"
  by (induction xs) (auto split: if_splits)

lemma xml_view_state_Some:
  assumes "xml_view_state W text = Some v"
  shows "v \<noteq> [] \<and> v \<in> set (document_tokens W text)"
proof -
  from assms obtain root where
    m: "contains (lower text) PARTIAL_RESPONSE" and
    r: "xml_fromstring W text = Some root" and
    f: "first_view_state_update (xml_iter root) = Some v"
    unfolding xml_view_state_def by (auto split: if_splits option.splits)
  from first_view_state_update_Some [OF f]
  have "v \<noteq> []" and "v \<in> set (map update_text (filter (\<lambda>e. is_update e \<and>
       contains (lower (or_empty (map_of (xml_attrib e) ''id''))) ''javax.faces.viewstate'')
       (xml_iter root)))"
    by simp_all
  then show ?thesis
    unfolding document_tokens_def
    using m r mem_filter_appendI1 [where P = "\<lambda>v. v \<noteq> []" and v = v]
    by simp
qed

lemma html_view_state_Some:
  assumes "html_parser W text = Inr soup" "html_view_state soup = Some v"
  shows "v \<noteq> [] \<and> v \<in> set (document_tokens W text)"
proof -
  from assms(2) obtain inp where
    f: "find is_view_state_input (doc_order soup) = Some inp" and
    v: "or_empty (get_attr inp ''value'') \<noteq> []" "get_attr inp ''value'' = Some v"
    unfolding html_view_state_def by (auto split: option.splits if_splits)
  from find_SomeD [OF f]
  have "inp \<in> set (filter is_view_state_input (doc_order soup))"
    by simp
  then have "or_empty (get_attr inp ''value'') \<in>
      set (map (\<lambda>t. or_empty (get_attr t ''value''))
             (filter is_view_state_input (doc_order soup)))"
    by (rule in_set_mapI)
  moreover from v have "or_empty (get_attr inp ''value'') = v" "v \<noteq> []"
    by (simp_all add: or_empty_def)
  ultimately have "v \<in> set (map (\<lambda>t. or_empty (get_attr t ''value''))
             (filter is_view_state_input (doc_order soup)))" "v \<noteq> []"
    by simp_all
  then show ?thesis
    unfolding document_tokens_def assms(1) sum.case
    using mem_filter_appendI2 [where P = "\<lambda>v. v \<noteq> []" and v = v]
    by blast
qed

lemma refresh_raises:
  "refresh_view_state_from_html W s h = Inl e \<longleftrightarrow>
   xml_view_state W h = None \<and> html_parser W h = Inl e"
  unfolding refresh_view_state_from_html_def
  by (auto split: option.splits sum.splits)

lemma refresh_returns:
  assumes "refresh_view_state_from_html W s h = Inr s'"
  shows "s' = s\<lparr>view_state_value := view_state_value s'\<rparr> \<and>
         (view_state_value s' = view_state_value s \<or>
          (\<exists>v. view_state_value s' = Some v \<and> v \<noteq> [] \<and> v \<in> set (document_tokens W h)))"
proof (cases "xml_view_state W h")
  case (Some v)
  with assms have "s' = s\<lparr>view_state_value := Some v\<rparr>"
    unfolding refresh_view_state_from_html_def by simp
  with xml_view_state_Some [OF Some] show ?thesis
    by simp
next
  case None
  with assms obtain soup where p: "html_parser W h = Inr soup"
    unfolding refresh_view_state_from_html_def by (auto split: sum.splits)
  show ?thesis
  proof (cases "html_view_state soup")
    case (Some v)
    with assms None p have "s' = s\<lparr>view_state_value := Some v\<rparr>"
      unfolding refresh_view_state_from_html_def by simp
    with html_view_state_Some [OF p Some] show ?thesis
      by simp
  next
    case n: None
    with assms None p have "s' = s"
      unfolding refresh_view_state_from_html_def by simp
    then show ?thesis
      by simp
  qed
qed

lemma refresh_no_token:
  assumes "refresh_view_state_from_html W s h = Inr s'" "document_tokens W h = []"
  shows "s' = s"
proof -
  from refresh_returns [OF assms(1)] assms(2)
  have "view_state_value s' = view_state_value s"
    by auto
  with refresh_returns [OF assms(1)] show ?thesis
    by (metis (full_types) session.surjective session.update_convs(6))
qed

lemma sent_refresh: "refresh_view_state_from_html W s h = Inr s' \<Longrightarrow> sent s' = sent s"
  unfolding refresh_view_state_from_html_def
  by (auto split: option.splits sum.splits)

section \<open>The payload\<close>

lemma map_of_dict_set: "map_of (dict_set k v d) = (map_of d)(k \<mapsto> v)"
  by (induction d) (auto simp: fun_eq_iff)

lemma keys_dict_set: "fst ` set (dict_set k v d) = insert k (fst ` set d)"
  by (induction k v d rule: dict_set.induct) force+

lemma hidden_fields_keys:
  "VIEW_STATE \<notin> fst ` set payload \<Longrightarrow> VIEW_STATE \<notin> fst ` set (hidden_fields inps payload)"
proof (induction inps arbitrary: payload)
  case Nil
  then show ?case by simp
next
  case (Cons inp inps)
  show ?case
  proof (cases "or_empty (get_attr inp ''name'') \<noteq> [] \<and>
                or_empty (get_attr inp ''name'') \<noteq> VIEW_STATE \<and>
                lower (or_empty (get_attr inp ''type'')) = ''hidden''")
    case True
    then have "VIEW_STATE \<notin> fst ` set (dict_set (or_empty (get_attr inp ''name''))
                 (or_empty (get_attr inp ''value'')) payload)"
      using Cons.prems by (auto simp: keys_dict_set)
    from Cons.IH [OF this] True show ?thesis by (simp add: Let_def)
  next
    case False
    with Cons.IH [OF Cons.prems] show ?thesis by (auto simp: Let_def)
  qed
qed

lemma build_payload_view_state:
  "or_empty (submit_name_of form) \<noteq> VIEW_STATE \<Longrightarrow>
   map_of (build_payload form solicitud view_state) VIEW_STATE = Some view_state"
  by (simp add: build_payload_def Let_def map_of_dict_set)

lemma build_payload_submit:
  "or_empty (submit_name_of form) \<noteq> [] \<Longrightarrow>
   map_of (build_payload form solicitud view_state) (or_empty (submit_name_of form))
     = Some (or_empty (submit_name_of form))"
  by (simp add: build_payload_def Let_def map_of_dict_set)

lemma get_info_request:
  assumes "get_info_for_radicado W s rad = (Inr res, s')" "strip rad \<noteq> []"
  shows "\<exists>index_html form post_url.
           fst (get_index W (snd (ensure_authenticated W s))) = Inr index_html \<and>
           find_search_form_html W index_html = Inr (Some form) \<and>
           sent s' = sent (snd (get_index W (snd (ensure_authenticated W s)))) @
             [search_request post_url form (strip rad)
                (or_empty (view_state_value (snd (get_index W (snd (ensure_authenticated W s))))))]"
  using assms
  unfolding get_info_for_radicado_def Let_def
  by (auto split: prod.splits sum.splits option.splits if_splits
        simp: send_def dest!: sent_refresh)

section \<open>Claims about the batch\<close>

text \<open>
  C1. In the loop of the batch endpoint every identifier gets its result, at its own
  position and with its own time of consultation, from a query that starts in the
  session left by the queries before it. When that query raises an exception
  (\<open>NotImplementedError\<close> or any other), the result has \<open>ok = False\<close>, the normalized
  status NO ENCONTRADO, no raw status, no insured name and the message of the exception
  in \<open>error\<close>, and the loop goes on: a query that returns, before or after one that
  raised, is recorded with \<open>ok = True\<close>, the statuses and the name it returned and no
  error. No result of the loop, and none in the response of the endpoint, has
  \<open>ok = False\<close> together with a raw status.
\<close>

theorem batch_isolates_failures:
  "(\<forall>results s'. query_all W s tick rads = (results, s') \<longrightarrow>
      length results = length rads \<and>
      (\<forall>i<length rads.
         radicado (results ! i) = rads ! i \<and>
         consulted_at (results ! i) = clock W (tick + i) \<and>
         (\<forall>exc. fst (get_info_for_radicado W (session_after W s (take i rads)) (rads ! i))
                  = Inl exc \<longrightarrow>
            ok (results ! i) = False \<and>
            estado_normalizado (results ! i) = Some ''NO ENCONTRADO'' \<and>
            estado_raw (results ! i) = None \<and>
            asegurado (results ! i) = None \<and>
            error (results ! i) = Some (str_exc exc)) \<and>
         (\<forall>raw norm name.
            fst (get_info_for_radicado W (session_after W s (take i rads)) (rads ! i))
              = Inr (raw, norm, name) \<longrightarrow>
            ok (results ! i) = True \<and>
            estado_raw (results ! i) = Some raw \<and>
            estado_normalizado (results ! i) = Some norm \<and>
            asegurado (results ! i) = name \<and>
            error (results ! i) = None)) \<and>
      (\<forall>r\<in>set results. \<not> ok r \<longrightarrow> estado_raw r = None)) \<and>
   (\<forall>fetched n out requests.
      bolivar_radicados W req = (Ok_Response fetched n out, requests) \<longrightarrow>
      (\<forall>r\<in>set out. \<not> ok r \<longrightarrow> estado_raw r = None))"
proof -
  have len: "length results = length rads"
    if "query_all W s tick rads = (results, s')" for W s tick rads results s'
    using query_all_radicados [OF that] by (metis length_map)
  have raw: "estado_raw r = None"
    if q: "query_all W s tick rads = (results, s')" and r: "r \<in> set results" "\<not> ok r"
    for W s tick rads results s' r
  proof -
    from r(1) obtain i where i: "i < length results" "results ! i = r"
      by (auto simp: in_set_conv_nth)
    with len [OF q] query_all_nth [OF q, of i] r(2) show ?thesis
      by (metis result_of_raw)
  qed
  show ?thesis
  proof (intro conjI allI impI ballI)
    fix results s'
    assume q: "query_all W s tick rads = (results, s')"
    show "length results = length rads"
      by (rule len [OF q])
    show "estado_raw r = None" if "r \<in> set results" "\<not> ok r" for r
      using raw [OF q that] .
    fix i
    assume i: "i < length rads"
    show "radicado (results ! i) = rads ! i"
      using query_all_nth [OF q i] by (simp add: result_of_radicado)
    show "consulted_at (results ! i) = clock W (tick + i)"
      using query_all_nth [OF q i] by (simp add: result_of_time)
    {
      fix exc
      assume "fst (get_info_for_radicado W (session_after W s (take i rads)) (rads ! i))
              = Inl exc"
      with query_all_nth [OF q i]
      have r: "results ! i = failed_result (rads ! i) (clock W (tick + i)) exc"
        by (simp add: result_of_failed)
      show "ok (results ! i) = False"
        and "estado_normalizado (results ! i) = Some ''NO ENCONTRADO''"
        and "estado_raw (results ! i) = None"
        and "asegurado (results ! i) = None"
        and "error (results ! i) = Some (str_exc exc)"
        unfolding r by (simp_all add: failed_result_def NO_ENCONTRADO_def)
    }
    {
      fix raw norm name
      assume "fst (get_info_for_radicado W (session_after W s (take i rads)) (rads ! i))
              = Inr (raw, norm, name)"
      with query_all_nth [OF q i]
      have r: "results ! i =
          \<lparr> radicado = rads ! i, ok = True, estado_raw = Some raw,
            estado_normalizado = Some norm, asegurado = name,
            consulted_at = clock W (tick + i), error = None \<rparr>"
        by (simp add: result_of_returned)
      show "ok (results ! i) = True"
        and "estado_raw (results ! i) = Some raw"
        and "estado_normalizado (results ! i) = Some norm"
        and "asegurado (results ! i) = name"
        and "error (results ! i) = None"
        unfolding r by simp_all
    }
  next
    fix fetched n out requests r
    assume "bolivar_radicados W req = (Ok_Response fetched n out, requests)"
      and "r \<in> set out" "\<not> ok r"
    with bolivar_radicados_Ok raw show "estado_raw r = None"
      by blast
  qed
qed

theorem batch_isolates_failures_witness:
  "length (fst (query_all portal portal_session 1 [''A-100'', ''A-200'', ''A-300''])) = 3 \<and>
   ok (fst (query_all portal portal_session 1 [''A-100'', ''A-200'', ''A-300'']) ! 0) = True \<and>
   estado_raw (fst (query_all portal portal_session 1 [''A-100'', ''A-200'', ''A-300'']) ! 0)
     = Some ''Nuevo'' \<and>
   ok (fst (query_all portal portal_session 1 [''A-100'', ''A-200'', ''A-300'']) ! 1) = False \<and>
   estado_raw (fst (query_all portal portal_session 1 [''A-100'', ''A-200'', ''A-300'']) ! 1)
     = None \<and>
   error (fst (query_all portal portal_session 1 [''A-100'', ''A-200'', ''A-300'']) ! 1)
     = Some ''timeout'' \<and>
   radicado (fst (query_all portal portal_session 1 [''A-100'', ''A-200'', ''A-300'']) ! 2)
     = ''A-300'' \<and>
   ok (fst (query_all portal portal_session 1 [''A-100'', ''A-200'', ''A-300'']) ! 2) = True \<and>
   estado_normalizado
     (fst (query_all portal portal_session 1 [''A-100'', ''A-200'', ''A-300'']) ! 2)
     = Some ''SIN DESISTIR'' \<and>
   error (fst (query_all portal portal_session 1 [''A-100'', ''A-200'', ''A-300'']) ! 2) = None"
proof -
  let ?rads = "[''A-100'', ''A-200'', ''A-300'']"
  let ?q = "query_all portal portal_session 1 ?rads"
  let ?out = "\<lambda>i. fst (get_info_for_radicado portal
                        (session_after portal portal_session (take i ?rads)) (?rads ! i))"
  have q: "?q = (fst ?q, snd ?q)"
    by simp
  have first: "?out 0 = Inr (''Nuevo'', ''SIN DESISTIR'', Some ''Ana Perez'')"
    by code_simp
  have second: "?out 1 = Inl (OtherException ''timeout'')"
    by code_simp
  have third: "?out 2 = Inr (''Nuevo'', ''SIN DESISTIR'', Some ''Ana Perez'')"
    by code_simp
  from batch_isolates_failures [of portal portal_session 1 ?rads] q
  have all: "length (fst ?q) = length ?rads \<and>
      (\<forall>i<length ?rads.
         radicado (fst ?q ! i) = ?rads ! i \<and>
         (\<forall>exc. ?out i = Inl exc \<longrightarrow>
            ok (fst ?q ! i) = False \<and>
            estado_raw (fst ?q ! i) = None \<and>
            error (fst ?q ! i) = Some (str_exc exc)) \<and>
         (\<forall>raw norm name. ?out i = Inr (raw, norm, name) \<longrightarrow>
            ok (fst ?q ! i) = True \<and>
            estado_raw (fst ?q ! i) = Some raw \<and>
            estado_normalizado (fst ?q ! i) = Some norm \<and>
            error (fst ?q ! i) = None))"
    by blast
  then have len: "length (fst ?q) = 3"
    by simp
  have i0: "(0::nat) < length ?rads" and i1: "(1::nat) < length ?rads"
    and i2: "(2::nat) < length ?rads"
    by simp_all
  from all i0 first
  have r0: "ok (fst ?q ! 0) = True \<and> estado_raw (fst ?q ! 0) = Some ''Nuevo''"
    by blast
  from all i1 second
  have "ok (fst ?q ! 1) = False \<and> estado_raw (fst ?q ! 1) = None \<and>
        error (fst ?q ! 1) = Some (str_exc (OtherException ''timeout''))"
    by blast
  then have r1: "ok (fst ?q ! 1) = False \<and> estado_raw (fst ?q ! 1) = None \<and>
        error (fst ?q ! 1) = Some ''timeout''"
    by simp
  from all i2 third
  have "radicado (fst ?q ! 2) = ?rads ! 2 \<and> ok (fst ?q ! 2) = True \<and>
        estado_normalizado (fst ?q ! 2) = Some ''SIN DESISTIR'' \<and> error (fst ?q ! 2) = None"
    by blast
  then have r2: "radicado (fst ?q ! 2) = ''A-300'' \<and> ok (fst ?q ! 2) = True \<and>
        estado_normalizado (fst ?q ! 2) = Some ''SIN DESISTIR'' \<and> error (fst ?q ! 2) = None"
    by simp
  from len r0 r1 r2 show ?thesis
    by blast
qed

text \<open>
  C2. The identifiers of a request are the trimmed, non-empty pieces of the text cut at
  CR, LF, comma and semicolon, or the trimmed, non-empty elements of the list. The batch
  works on these with duplicates removed: each distinct identifier once, at the place of
  its first occurrence. When the endpoint answers with a batch, the results are one per
  identifier of that list, in its order, and \<open>count\<close> is its length, the number of
  distinct identifiers.
\<close>

theorem batch_one_result_per_identifier:
  "normalize_radicados v = first_occurrences (identifiers v) \<and>
   distinct (normalize_radicados v) \<and>
   set (normalize_radicados v) = set (identifiers v) \<and>
   length (normalize_radicados v) = card (set (identifiers v)) \<and>
   identifiers (RStr text) = stripped_nonempty (split_where is_separator text) \<and>
   identifiers (RList vs) = stripped_nonempty vs \<and>
   (\<forall>fetched n out requests.
      bolivar_radicados W req = (Ok_Response fetched n out, requests) \<longrightarrow>
      map radicado out = normalize_radicados (req_radicados req) \<and>
      n = length (normalize_radicados (req_radicados req)))"
proof -
  have a: "normalize_radicados v = first_occurrences (identifiers v)"
    by (rule normalize_radicados_identifiers)
  have b: "distinct (normalize_radicados v)"
    unfolding a by (rule distinct_first_occurrences)
  have c: "set (normalize_radicados v) = set (identifiers v)"
    unfolding a by (rule set_first_occurrences)
  have d: "length (normalize_radicados v) = card (set (identifiers v))"
    using distinct_card [OF b] c by simp
  have e: "identifiers (RStr text) = stripped_nonempty (split_where is_separator text)"
    by (simp add: identifiers_def candidates_split_where)
  have f: "identifiers (RList vs) = stripped_nonempty vs"
    by (simp add: identifiers_def)
  have g: "map radicado out = normalize_radicados (req_radicados req) \<and>
           n = length (normalize_radicados (req_radicados req))"
    if "bolivar_radicados W req = (Ok_Response fetched n out, requests)"
    for fetched n out requests
  proof -
    from bolivar_radicados_Ok [OF that] obtain s s' where
      q: "query_all W s 1 (normalize_radicados (req_radicados req)) = (out, s')" and
      n: "n = length out"
      by blast
    from query_all_radicados [OF q] n show ?thesis
      by (metis length_map)
  qed
  from a b c d e f g show ?thesis by blast
qed

theorem batch_one_result_per_identifier_witness:
  "\<exists>fetched n out requests.
     bolivar_radicados portal
       \<lparr> req_cookie = Some ''Cookie: JSESSIONID=abc'',
         req_radicados = RStr ''A-100, A-200;A-100'',
         req_use_server_auth = False \<rparr> = (Ok_Response fetched n out, requests) \<and>
     map radicado out = [''A-100'', ''A-200''] \<and> n = 2"
proof -
  let ?req = "\<lparr> req_cookie = Some ''Cookie: JSESSIONID=abc'',
                req_radicados = RStr ''A-100, A-200;A-100'',
                req_use_server_auth = False \<rparr>"
  let ?out = "[\<lparr>radicado = ''A-100'', ok = True, estado_raw = Some ''Nuevo'',
                 estado_normalizado = Some ''SIN DESISTIR'', asegurado = Some ''Ana Perez'',
                 consulted_at = ''T+'', error = None\<rparr>,
               \<lparr>radicado = ''A-200'', ok = False, estado_raw = None,
                 estado_normalizado = Some ''NO ENCONTRADO'', asegurado = None,
                 consulted_at = ''T++'', error = Some ''timeout''\<rparr>]"
  have v: "fst (bolivar_radicados portal ?req) = Ok_Response ''T'' 2 ?out"
    by code_simp
  then have r: "bolivar_radicados portal ?req
                = (Ok_Response ''T'' 2 ?out, snd (bolivar_radicados portal ?req))"
    by (metis prod.collapse)
  have ids: "normalize_radicados (req_radicados ?req) = [''A-100'', ''A-200'']"
    by code_simp
  from batch_one_result_per_identifier [of _ _ _ portal ?req] r
  have "map radicado ?out = normalize_radicados (req_radicados ?req) \<and>
        2 = length (normalize_radicados (req_radicados ?req))"
    by blast
  with ids have m: "map radicado ?out = [''A-100'', ''A-200'']"
    by simp
  show ?thesis
    apply (rule exI [of _ "''T''"])
    apply (rule exI [of _ 2])
    apply (rule exI [of _ ?out])
    apply (rule exI [of _ "snd (bolivar_radicados portal ?req)"])
    apply (intro conjI)
      apply (rule r)
     apply (rule m)
    apply (rule refl)
    done
qed

text \<open>
  C5. For an identifier that is empty after trimming (empty, or made of white space
  only, the no-break space included), the query returns NO ENCONTRADO
  as raw and as normalized status and no insured name, and it leaves the session as it
  was: nothing is sent to the portal and the authentication step is not taken.
\<close>

theorem blank_radicado_short_circuit:
  "strip rad = [] \<Longrightarrow>
   get_info_for_radicado W s rad = (Inr (''NO ENCONTRADO'', ''NO ENCONTRADO'', None), s) \<and>
   sent (snd (get_info_for_radicado W s rad)) = sent s \<and>
   is_authenticated (snd (get_info_for_radicado W s rad)) = is_authenticated s"
  by (simp add: get_info_for_radicado_def NO_ENCONTRADO_def)

theorem blank_radicado_short_circuit_witness:
  "get_info_for_radicado portal portal_session ''   ''
     = (Inr (''NO ENCONTRADO'', ''NO ENCONTRADO'', None), portal_session) \<and>
   get_info_for_radicado portal portal_session [CHR 0xA0, CHR 0x09]
     = (Inr (''NO ENCONTRADO'', ''NO ENCONTRADO'', None), portal_session) \<and>
   sent (snd (get_info_for_radicado portal portal_session [CHR 0xA0, CHR 0x09]))
     = sent portal_session"
proof -
  have "strip ''   '' = []" and "strip [CHR 0xA0, CHR 0x09] = []"
    by code_simp+
  from blank_radicado_short_circuit [OF this(1), of portal portal_session]
    blank_radicado_short_circuit [OF this(2), of portal portal_session]
  show ?thesis
    by simp
qed

section \<open>Claim about the form resolver\<close>

text \<open>
  C6, as the claim words it, takes the values as they stand in the markup: the name or
  id ends with \<open>busqueda\<close>, the id or name is exactly \<open>FormIndex\<close>. The source trims the
  id and the name before it compares them with \<open>FormIndex\<close>, and puts name, id and action
  into lower case before it tests their endings. On a page whose first search form posts
  to the landing page and whose second is named \<open>FormIndex\<close> with a blank after it, the
  source selects the second form and the order as worded the first.
\<close>

theorem find_search_form_counterexample:
  "find_search_form two_forms_page \<noteq> Some (resolve_form_claim (all_forms two_forms_page))"
proof -
  have "find_search_form two_forms_page = Some padded_form"
    by code_simp
  moreover have "resolve_form_claim (all_forms two_forms_page) = posting_form"
    by code_simp
  moreover have "padded_form \<noteq> posting_form"
    by code_simp
  ultimately show ?thesis
    by simp
qed

text \<open>
  C6, amended. \<open>_find_search_form\<close> answers \<open>None\<close> exactly for a document without a form.
  For a document with forms it selects, in this order of priority: among the forms with
  an input or textarea whose name or id, in lower case, ends with \<open>busqueda\<close>, the first
  whose id or name, trimmed of surrounding white space, is \<open>FormIndex\<close>, else the first
  whose action, in lower case, ends with \<open>index.xhtml\<close>, else the first of them; when no
  form has such a field, the first form with an input named \<open>javax.faces.ViewState\<close>;
  else the very first form. The selected form is a form of the document, and it is a
  function of the markup alone.
\<close>

theorem find_search_form_priority:
  "(find_search_form doc = None \<longleftrightarrow> all_forms doc = []) \<and>
   (all_forms doc \<noteq> [] \<longrightarrow>
      find_search_form doc = Some (resolve_form_spec (all_forms doc)) \<and>
      resolve_form_spec (all_forms doc) \<in> set (all_forms doc))"
  using find_search_form_None find_search_form_spec resolve_form_spec_mem by blast

theorem find_search_form_priority_witness:
  "all_forms two_forms_page = [posting_form, padded_form] \<and>
   find_search_form two_forms_page = Some padded_form \<and>
   all_forms landing_page = [menu_form, search_form] \<and>
   find_search_form landing_page = Some search_form"
proof -
  have forms: "all_forms two_forms_page = [posting_form, padded_form]"
    by code_simp
  have chosen: "resolve_form_spec [posting_form, padded_form] = padded_form"
    by code_simp
  from forms have "all_forms two_forms_page \<noteq> []"
    by simp
  with find_search_form_priority [of two_forms_page]
  have "find_search_form two_forms_page = Some (resolve_form_spec (all_forms two_forms_page))"
    by blast
  with forms chosen have one: "find_search_form two_forms_page = Some padded_form"
    by simp
  have forms': "all_forms landing_page = [menu_form, search_form]"
    by code_simp
  have chosen': "resolve_form_spec [menu_form, search_form] = search_form"
    by code_simp
  from forms' have "all_forms landing_page \<noteq> []"
    by simp
  with find_search_form_priority [of landing_page]
  have "find_search_form landing_page = Some (resolve_form_spec (all_forms landing_page))"
    by blast
  with forms' chosen' have "find_search_form landing_page = Some search_form"
    by simp
  with forms one forms' show ?thesis
    by simp
qed

text \<open>
  The steps of the order, each on a document of two forms: the canonical identifier wins
  over an earlier form that posts to the landing page; a form with a search field wins
  over an earlier form with a state token only; a form with a state token wins over an
  earlier plain form; and of two plain forms the first is taken.
\<close>

lemma find_search_form_examples:
  "find_search_form
     [Tag ''form'' [(''id'', ''a''), (''action'', ''/pages/index.xhtml'')]
        [Tag ''input'' [(''name'', ''f:Busqueda'')] []],
      Tag ''form'' [(''id'', ''b''), (''name'', ''FormIndex '')]
        [Tag ''textarea'' [(''id'', ''busqueda'')] []]]
   = Some (Tag ''form'' [(''id'', ''b''), (''name'', ''FormIndex '')]
        [Tag ''textarea'' [(''id'', ''busqueda'')] []])"
  "find_search_form
     [Tag ''form'' [(''id'', ''a'')]
        [Tag ''input'' [(''name'', ''javax.faces.ViewState''), (''value'', ''t'')] []],
      Tag ''div'' [] [Tag ''form'' [(''id'', ''b'')] [Tag ''input'' [(''name'', ''busqueda'')] []]]]
   = Some (Tag ''form'' [(''id'', ''b'')] [Tag ''input'' [(''name'', ''busqueda'')] []])"
  "find_search_form
     [Tag ''form'' [(''id'', ''a'')] [],
      Tag ''form'' [(''id'', ''b'')]
        [Tag ''input'' [(''name'', ''javax.faces.ViewState''), (''value'', ''t'')] []]]
   = Some (Tag ''form'' [(''id'', ''b'')]
        [Tag ''input'' [(''name'', ''javax.faces.ViewState''), (''value'', ''t'')] []])"
  "find_search_form [Tag ''form'' [(''id'', ''a'')] [], Tag ''form'' [(''id'', ''b'')] []]
   = Some (Tag ''form'' [(''id'', ''a'')] [])"
  "find_search_form [Tag ''p'' [] [Text ''no form'']] = None"
  by code_simp+

section \<open>Claims about the tracker and the unwrapper\<close>

text \<open>
  C7, as the claim states it, fails: the refresh raises when the HTML parser rejects the
  markup, as it does for a text with an unfinished marked section. Only the XML parse
  stands in a \<open>try\<close>.
\<close>

theorem refresh_view_state_counterexample:
  "refresh_view_state_from_html portal portal_session ''<p>ok</p><![ x ]>''
     = Inl (OtherException ''ParserRejectedMarkup'')"
  by code_simp

text \<open>
  C7, amended. The refresh raises exactly when the XML branch finds no token and the HTML
  parser rejects the markup, with the exception of the parser and before anything is
  assigned; for markup that the parser accepts it returns. When it returns, it has
  changed no field of the session but the tracked token; the tracked token is the one
  before, or a non-empty token of the document; and for a document without a non-empty
  token the session is unchanged.
\<close>

theorem refresh_view_state_monotonic:
  "(\<forall>e. refresh_view_state_from_html W s html = Inl e \<longleftrightarrow>
        xml_view_state W html = None \<and> html_parser W html = Inl e) \<and>
   ((\<exists>soup. html_parser W html = Inr soup) \<longrightarrow>
      (\<exists>s'. refresh_view_state_from_html W s html = Inr s')) \<and>
   (\<forall>s'. refresh_view_state_from_html W s html = Inr s' \<longrightarrow>
      s' = s\<lparr>view_state_value := view_state_value s'\<rparr> \<and>
      (view_state_value s' = view_state_value s \<or>
       (\<exists>v. view_state_value s' = Some v \<and> v \<noteq> [] \<and> v \<in> set (document_tokens W html))) \<and>
      (document_tokens W html = [] \<longrightarrow> s' = s))"
proof (intro conjI allI impI)
  fix e
  show "refresh_view_state_from_html W s html = Inl e \<longleftrightarrow>
        xml_view_state W html = None \<and> html_parser W html = Inl e"
    by (rule refresh_raises)
next
  assume "\<exists>soup. html_parser W html = Inr soup"
  then obtain soup where "html_parser W html = Inr soup"
    by blast
  then have "\<And>e. refresh_view_state_from_html W s html \<noteq> Inl e"
    by (simp add: refresh_raises)
  then show "\<exists>s'. refresh_view_state_from_html W s html = Inr s'"
    by (cases "refresh_view_state_from_html W s html") auto
next
  fix s'
  assume r: "refresh_view_state_from_html W s html = Inr s'"
  from refresh_returns [OF r]
  show "s' = s\<lparr>view_state_value := view_state_value s'\<rparr>"
    and "view_state_value s' = view_state_value s \<or>
       (\<exists>v. view_state_value s' = Some v \<and> v \<noteq> [] \<and> v \<in> set (document_tokens W html))"
    by blast+
  assume "document_tokens W html = []"
  with r show "s' = s"
    by (rule refresh_no_token)
qed

theorem refresh_view_state_monotonic_witness:
  "document_tokens portal ''answer'' = [] \<and>
   refresh_view_state_from_html portal portal_session ''answer'' = Inr portal_session \<and>
   refresh_view_state_from_html portal portal_session ''landing''
     = Inr (portal_session\<lparr>view_state_value := Some ''TOKEN-1''\<rparr>)"
proof -
  have none: "document_tokens portal ''answer'' = []"
    by code_simp
  have accepted: "\<exists>soup. html_parser portal ''answer'' = Inr soup"
    by (simp add: portal_def)
  have new: "refresh_view_state_from_html portal portal_session ''landing''
     = Inr (portal_session\<lparr>view_state_value := Some ''TOKEN-1''\<rparr>)"
    by code_simp
  from refresh_view_state_monotonic [of portal portal_session "''answer''"] accepted
  obtain s' where r: "refresh_view_state_from_html portal portal_session ''answer'' = Inr s'"
    by blast
  with refresh_view_state_monotonic [of portal portal_session "''answer''"] none
  have "s' = portal_session"
    by blast
  with r none new show ?thesis
    by simp
qed

text \<open>
  C8. A text without the marker \<open><partial-response\<close> (in any case of letters) is returned
  unchanged, so unwrapping it again changes nothing; and a text with the marker whose XML
  parse fails is returned unchanged as well.
\<close>

theorem unwrap_plain_unchanged:
  "(\<not> contains (lower text) PARTIAL_RESPONSE \<longrightarrow>
      unwrap_jsf_partial_response W text = text \<and>
      unwrap_jsf_partial_response W (unwrap_jsf_partial_response W text)
        = unwrap_jsf_partial_response W text) \<and>
   (contains (lower text) PARTIAL_RESPONSE \<and> xml_fromstring W text = None \<longrightarrow>
      unwrap_jsf_partial_response W text = text)"
  by (simp add: unwrap_jsf_partial_response_def)

theorem unwrap_plain_unchanged_witness:
  "unwrap_jsf_partial_response portal ''<table id=x></table>'' = ''<table id=x></table>'' \<and>
   unwrap_jsf_partial_response portal ''<Partial-Response><changes'' = ''<Partial-Response><changes''"
proof -
  have plain: "\<not> contains (lower ''<table id=x></table>'') PARTIAL_RESPONSE"
    by code_simp
  have marked: "contains (lower ''<Partial-Response><changes'') PARTIAL_RESPONSE \<and>
                xml_fromstring portal ''<Partial-Response><changes'' = None"
    by code_simp
  from unwrap_plain_unchanged [of "''<table id=x></table>''" portal] plain
  have one: "unwrap_jsf_partial_response portal ''<table id=x></table>'' = ''<table id=x></table>''"
    by blast
  from unwrap_plain_unchanged [of "''<Partial-Response><changes''" portal] marked
  have "unwrap_jsf_partial_response portal ''<Partial-Response><changes''
        = ''<Partial-Response><changes''"
    by blast
  with one show ?thesis
    by simp
qed

section \<open>Claim about missing authentication\<close>

text \<open>
  C9. When the normalized cookie header of the request is empty and the flag
  \<open>use_server_auth\<close> is not set, the endpoint answers 400 with its message, without
  results and without a request to the portal. A session without cookie header and
  without the flag, not yet authenticated, raises \<open>ValueError\<close> in
  \<open>ensure_authenticated\<close> and in every query of a non-blank identifier, and sends
  nothing: the session is left as it was.
\<close>

theorem missing_auth_rejected:
  "(normalize_cookie_header (req_cookie req) = [] \<and> \<not> req_use_server_auth req \<longrightarrow>
      bolivar_radicados W req = (Bad_Request MSG_MISSING_AUTH, [])) \<and>
   (\<not> is_authenticated s \<and> cookie_header s = [] \<and> \<not> use_server_auth s \<longrightarrow>
      ensure_authenticated W s = (Inl (ValueError MSG_NO_COOKIE), s) \<and>
      (strip rad \<noteq> [] \<longrightarrow>
         get_info_for_radicado W s rad = (Inl (ValueError MSG_NO_COOKIE), s)))"
  by (simp add: bolivar_radicados_def ensure_authenticated_def get_info_for_radicado_def)

theorem missing_auth_rejected_witness:
  "bolivar_radicados portal
     \<lparr> req_cookie = Some '' '', req_radicados = RStr ''A-100'', req_use_server_auth = False \<rparr>
     = (Bad_Request MSG_MISSING_AUTH, []) \<and>
   ensure_authenticated portal anonymous_session
     = (Inl (ValueError MSG_NO_COOKIE), anonymous_session) \<and>
   get_info_for_radicado portal anonymous_session ''A-100''
     = (Inl (ValueError MSG_NO_COOKIE), anonymous_session)"
proof -
  let ?req = "\<lparr> req_cookie = Some '' '', req_radicados = RStr ''A-100'',
                req_use_server_auth = False \<rparr>"
  have r: "normalize_cookie_header (req_cookie ?req) = [] \<and> \<not> req_use_server_auth ?req"
    by code_simp
  have s: "\<not> is_authenticated anonymous_session \<and> cookie_header anonymous_session = [] \<and>
           \<not> use_server_auth anonymous_session"
    by code_simp
  have i: "strip ''A-100'' \<noteq> []"
    by code_simp
  from missing_auth_rejected [of ?req portal anonymous_session "''A-100''"] r s i
  show ?thesis
    by blast
qed

section \<open>Claim about the payload\<close>

text \<open>
  C10, as the claim states it, fails for a form whose chosen submit control is itself
  named \<open>javax.faces.ViewState\<close>: the control is written into the payload last, under its
  own name, over the tracked token.
\<close>

theorem payload_state_token_counterexample:
  "map_of (build_payload shadowing_form ''A-100'' ''TOKEN-9'') VIEW_STATE \<noteq> Some ''TOKEN-9''"
proof -
  have "map_of (build_payload shadowing_form ''A-100'' ''TOKEN-9'') VIEW_STATE
        = Some ''javax.faces.ViewState''"
    by code_simp
  then show ?thesis
    by simp
qed

text \<open>
  C10, amended. The hidden fields replayed from the form never include the state-token
  field. Whenever the chosen submit control is not itself named after the state-token
  field, the payload maps \<open>javax.faces.ViewState\<close> to the token given to it, whatever the
  form holds; and whenever a submit control is chosen, the payload maps its name to that
  name. The request that a successful query of a non-blank identifier sends last is the
  submission of the resolved form, with the payload built from the token that the
  session tracks after the landing page was fetched.
\<close>

theorem payload_state_token:
  "VIEW_STATE \<notin> fst ` set (hidden_fields (find_all [''input''] form) []) \<and>
   (or_empty (submit_name_of form) \<noteq> VIEW_STATE \<longrightarrow>
      map_of (build_payload form solicitud view_state) VIEW_STATE = Some view_state) \<and>
   (or_empty (submit_name_of form) \<noteq> [] \<longrightarrow>
      map_of (build_payload form solicitud view_state) (or_empty (submit_name_of form))
        = Some (or_empty (submit_name_of form))) \<and>
   (\<forall>res s'. get_info_for_radicado W s rad = (Inr res, s') \<and> strip rad \<noteq> [] \<longrightarrow>
      (\<exists>index_html chosen post_url.
         fst (get_index W (snd (ensure_authenticated W s))) = Inr index_html \<and>
         find_search_form_html W index_html = Inr (Some chosen) \<and>
         sent s' = sent (snd (get_index W (snd (ensure_authenticated W s)))) @
           [search_request post_url chosen (strip rad)
              (or_empty (view_state_value (snd (get_index W (snd (ensure_authenticated W s))))))]))"
proof -
  have a: "VIEW_STATE \<notin> fst ` set (hidden_fields (find_all [''input''] form) [])"
    by (rule hidden_fields_keys) simp
  from a build_payload_view_state build_payload_submit get_info_request show ?thesis
    by blast
qed

theorem payload_state_token_witness:
  "map_of (build_payload search_form ''A-100'' ''TOKEN-9'') VIEW_STATE = Some ''TOKEN-9'' \<and>
   map_of (build_payload search_form ''A-100'' ''TOKEN-9'') ''FormIndex:j_idt42''
     = Some ''FormIndex:j_idt42''"
proof -
  have n: "or_empty (submit_name_of search_form) = ''FormIndex:j_idt42''"
    by code_simp
  then have "or_empty (submit_name_of search_form) \<noteq> VIEW_STATE \<and>
             or_empty (submit_name_of search_form) \<noteq> []"
    by (simp add: VIEW_STATE_def)
  with payload_state_token [of search_form "''A-100''" "''TOKEN-9''"] n show ?thesis
    by simp
qed

end
